theory Spec2Isabelle
  imports Complex_Main "HOL-Library.Sublist"
begin

section \<open>JavaScript values, exceptions and regular expressions\<close>

text \<open>
  A DOM element is an opaque reference, identified by a natural number. A thrown
  JavaScript exception is a value with the name of its constructor and its message.
  A text is a sequence of UTF-16 code units below 256, each written as the
  character of that code; for such a text \<open>length\<close> is the JavaScript length.
\<close>

type_synonym elem = nat

datatype js_error = JsError (err_name: string) (message: string)

text \<open>The outcome of one branch of a cascade of \<open>if (...) { ... return ... }\<close>
  statements: the branch returns, throws, or falls through to the next statement.\<close>

datatype 'a step = Return 'a | Throw js_error | Continue

fun orElse :: "'a step \<Rightarrow> 'a step \<Rightarrow> 'a step" where
  "orElse Continue next_step = next_step"
| "orElse (Return r) next_step = Return r"
| "orElse (Throw e) next_step = Throw e"

fun finish :: "'a step \<Rightarrow> 'a \<Rightarrow> js_error + 'a" where
  "finish Continue dflt = Inr dflt"
| "finish (Return r) dflt = Inr r"
| "finish (Throw e) dflt = Inl e"

text \<open>Truthiness of a value that is a string or \<open>undefined\<close>/\<open>null\<close>: the empty
  string is falsy.\<close>

definition truthy_str :: "string option \<Rightarrow> bool" where
  "truthy_str v = (case v of None \<Rightarrow> False | Some t \<Rightarrow> t \<noteq> [])"

text \<open>\<open>a || b\<close> on such values.\<close>

definition or_str :: "string option \<Rightarrow> string option \<Rightarrow> string option" where
  "or_str a b = (if truthy_str a then a else b)"

subsection \<open>Characters and strings\<close>

definition in_ranges :: "(char \<times> char) list \<Rightarrow> char \<Rightarrow> bool" where
  "in_ranges rs c =
     list_ex (\<lambda>(lo, hi). (of_char lo :: nat) \<le> of_char c \<and> (of_char c :: nat) \<le> of_char hi) rs"

text \<open>\<open>toLowerCase\<close> and \<open>toUpperCase\<close> on one ASCII character.\<close>

definition to_lower :: "char \<Rightarrow> char" where
  "to_lower c =
     (case map_of (zip ''ABCDEFGHIJKLMNOPQRSTUVWXYZ'' ''abcdefghijklmnopqrstuvwxyz'') c of
        None \<Rightarrow> c | Some l \<Rightarrow> l)"

definition to_upper :: "char \<Rightarrow> char" where
  "to_upper c =
     (case map_of (zip ''abcdefghijklmnopqrstuvwxyz'' ''ABCDEFGHIJKLMNOPQRSTUVWXYZ'') c of
        None \<Rightarrow> c | Some u \<Rightarrow> u)"

text \<open>The white space removed by \<open>String.prototype.trim\<close> and matched by \<open>\s\<close>
  among these code units: tab, line feed, vertical tab, form feed, carriage return,
  space and no-break space (U+00A0).\<close>

definition is_space :: "char \<Rightarrow> bool" where
  "is_space c = ((of_char c :: nat) \<in> {9, 10, 11, 12, 13, 32, 160})"

definition trim :: "string \<Rightarrow> string" where
  "trim t = rev (dropWhile is_space (rev (dropWhile is_space t)))"

text \<open>\<open>s.includes(t)\<close>: \<open>t\<close> occurs in \<open>s\<close> as a contiguous substring.\<close>

fun str_includes :: "string \<Rightarrow> string \<Rightarrow> bool" where
  "str_includes [] t = (t = [])"
| "str_includes (c # cs) t = (prefix t (c # cs) \<or> str_includes cs t)"

subsection \<open>Regular expressions\<close>

text \<open>
  The regular expressions of the source are written as terms of \<open>regex\<close>. The
  matcher follows the backtracking order of JavaScript: \<open>ends\<close> lists, in order of
  priority, the states in which a match of the expression started in a given state can
  end. A state is the position in the text and the span captured by group 1, if any.
  A greedy star tries another iteration first and gives up an iteration that consumes
  nothing.
\<close>

datatype regex =
    Eps
  | Chr char
  | Cls "(char \<times> char) list"
  | WordB
  | Seq regex regex
  | Alt regex regex
  | Star regex
  | Group regex

definition chr_eq :: "bool \<Rightarrow> char \<Rightarrow> char \<Rightarrow> bool" where
  "chr_eq icase a c = (if icase then to_lower a = to_lower c else a = c)"

definition cls_has :: "bool \<Rightarrow> (char \<times> char) list \<Rightarrow> char \<Rightarrow> bool" where
  "cls_has icase rs c =
     (in_ranges rs c \<or> (icase \<and> (in_ranges rs (to_lower c) \<or> in_ranges rs (to_upper c))))"

definition word_char :: "char \<Rightarrow> bool" where
  "word_char c = in_ranges [(CHR ''a'', CHR ''z''), (CHR ''A'', CHR ''Z''),
                            (CHR ''0'', CHR ''9''), (CHR ''_'', CHR ''_'')] c"

definition word_at :: "string \<Rightarrow> nat \<Rightarrow> bool" where
  "word_at t i = (i < length t \<and> word_char (t ! i))"

definition boundary :: "string \<Rightarrow> nat \<Rightarrow> bool" where
  "boundary t i = ((i > 0 \<and> word_at t (i - 1)) \<noteq> word_at t i)"

type_synonym mstate = "nat \<times> (nat \<times> nat) option"

function (sequential) ends :: "bool \<Rightarrow> string \<Rightarrow> regex \<Rightarrow> mstate \<Rightarrow> mstate list" where
  "ends ic t Eps st = [st]"
| "ends ic t (Chr a) (i, c) =
     (if i < length t \<and> chr_eq ic a (t ! i) then [(Suc i, c)] else [])"
| "ends ic t (Cls rs) (i, c) =
     (if i < length t \<and> cls_has ic rs (t ! i) then [(Suc i, c)] else [])"
| "ends ic t WordB (i, c) = (if boundary t i then [(i, c)] else [])"
| "ends ic t (Seq r1 r2) st = concat (map (ends ic t r2) (ends ic t r1 st))"
| "ends ic t (Alt r1 r2) st = ends ic t r1 st @ ends ic t r2 st"
| "ends ic t (Star r) (i, c) =
     concat (map (ends ic t (Star r))
                 (filter (\<lambda>(e, c'). i < e \<and> e \<le> length t) (ends ic t r (i, c))))
     @ [(i, c)]"
| "ends ic t (Group r) (i, c) = map (\<lambda>(e, c'). (e, Some (i, e))) (ends ic t r (i, c))"
  by pat_completeness auto
termination
  by (relation "inv_image (measure size <*lex*> measure id)
                  (\<lambda>(ic, t, r, (i, c)). (r, length t - i))") auto

definition Plus :: "regex \<Rightarrow> regex" where
  "Plus r = Seq r (Star r)"

definition Opt :: "regex \<Rightarrow> regex" where
  "Opt r = Alt r Eps"

fun Str :: "string \<Rightarrow> regex" where
  "Str [] = Eps"
| "Str (a # as) = Seq (Chr a) (Str as)"

fun Seqs :: "regex list \<Rightarrow> regex" where
  "Seqs [] = Eps"
| "Seqs [r] = r"
| "Seqs (r # rs) = Seq r (Seqs rs)"

definition digit :: regex where
  "digit = Cls [(CHR ''0'', CHR ''9'')]"

text \<open>A match: where it starts, where it ends, and the span of group 1.\<close>

record rmatch =
  m_start :: nat
  m_end :: nat
  m_group :: "(nat \<times> nat) option"

definition exec_at :: "bool \<Rightarrow> regex \<Rightarrow> string \<Rightarrow> nat \<Rightarrow> rmatch option" where
  "exec_at ic r t i =
     (case ends ic t r (i, None) of
        [] \<Rightarrow> None
      | (e, g) # _ \<Rightarrow> Some \<lparr>m_start = i, m_end = e, m_group = g\<rparr>)"

text \<open>\<open>text.match(pattern)\<close> for a pattern without the \<open>g\<close> flag: the leftmost
  match, or \<open>null\<close>.\<close>

definition regex_exec :: "bool \<Rightarrow> regex \<Rightarrow> string \<Rightarrow> rmatch option" where
  "regex_exec ic r t =
     (case List.map_filter (exec_at ic r t) [0..<Suc (length t)] of
        [] \<Rightarrow> None
      | m # _ \<Rightarrow> Some m)"

text \<open>\<open>pattern.test(text)\<close> for a pattern without the \<open>g\<close> flag.\<close>

definition regex_test :: "bool \<Rightarrow> regex \<Rightarrow> string \<Rightarrow> bool" where
  "regex_test ic r t = (regex_exec ic r t \<noteq> None)"

definition substring :: "string \<Rightarrow> nat \<Rightarrow> nat \<Rightarrow> string" where
  "substring t i j = take (j - i) (drop i t)"

text \<open>\<open>match[0]\<close> and \<open>match[1]\<close>; group 1 is \<open>undefined\<close> when it took no part.\<close>

definition match0 :: "string \<Rightarrow> rmatch \<Rightarrow> string" where
  "match0 t m = substring t (m_start m) (m_end m)"

definition match1 :: "string \<Rightarrow> rmatch \<Rightarrow> string option" where
  "match1 t m = (case m_group m of None \<Rightarrow> None | Some (i, j) \<Rightarrow> Some (substring t i j))"

section \<open>The DOM as seen by the extension\<close>

text \<open>
  The page is the environment of every function below. It is given by the answers of
  the DOM interface: the selector queries on the document and on an element, the
  parent and child links, attributes and properties, the text content and the
  bounding box. \<open>document.querySelectorAll\<close> throws on a selector it cannot parse.
  \<open>className\<close> is a string on HTML elements and an object on SVG elements
  (\<open>None\<close>); \<open>href\<close> and \<open>src\<close> are the properties of that name, \<open>undefined\<close> on
  elements that have none.
\<close>

record dom =
  querySelectorAll :: "string \<Rightarrow> js_error + elem list"
  querySelectorAllIn :: "elem \<Rightarrow> string \<Rightarrow> elem list"
  closest :: "elem \<Rightarrow> string \<Rightarrow> elem option"
  matches :: "elem \<Rightarrow> string \<Rightarrow> bool"
  parentElement :: "elem \<Rightarrow> elem option"
  children :: "elem \<Rightarrow> elem list"
  tagName :: "elem \<Rightarrow> string"
  className :: "elem \<Rightarrow> string option"
  getAttribute :: "elem \<Rightarrow> string \<Rightarrow> string option"
  href :: "elem \<Rightarrow> string option"
  src :: "elem \<Rightarrow> string option"
  textContent :: "elem \<Rightarrow> string"
  rectWidth :: "elem \<Rightarrow> real"
  rectHeight :: "elem \<Rightarrow> real"
  stylePadding :: "elem \<Rightarrow> string"
  styleMargin :: "elem \<Rightarrow> string"
  styleBackgroundColor :: "elem \<Rightarrow> string"
  body :: elem

definition hasAttribute :: "dom \<Rightarrow> elem \<Rightarrow> string \<Rightarrow> bool" where
  "hasAttribute d e a = (getAttribute d e a \<noteq> None)"

text \<open>\<open>element.querySelector(sel)\<close> is the first element of
  \<open>element.querySelectorAll(sel)\<close>, or \<open>null\<close>.\<close>

definition querySelectorIn :: "dom \<Rightarrow> elem \<Rightarrow> string \<Rightarrow> elem option" where
  "querySelectorIn d e sel = (case querySelectorAllIn d e sel of [] \<Rightarrow> None | x # _ \<Rightarrow> Some x)"

section \<open>Resolving the message container of an element\<close>

text \<open>The \<open>k\<close>-th element on the chain of parents of an element; the element itself
  for \<open>k = 0\<close>.\<close>

fun ancestor_at :: "dom \<Rightarrow> nat \<Rightarrow> elem \<Rightarrow> elem option" where
  "ancestor_at d 0 e = Some e"
| "ancestor_at d (Suc k) e =
     (case parentElement d e of None \<Rightarrow> None | Some p \<Rightarrow> ancestor_at d k p)"

text \<open>A DOM is a forest: no element is its own proper ancestor.\<close>

definition forest :: "dom \<Rightarrow> bool" where
  "forest d = (\<forall>e k. ancestor_at d (Suc k) e \<noteq> Some e)"

definition strict_descendant :: "dom \<Rightarrow> elem \<Rightarrow> elem \<Rightarrow> bool" where
  "strict_descendant d x e = (\<exists>k. ancestor_at d (Suc k) x = Some e)"

subsection \<open>\<open>findMessageContainer\<close> of content-scripts/content.js\<close>

definition containerSelectors :: "string list" where
  "containerSelectors =
     [''[role=\"listitem\"]'',
      ''.message-container'',
      ''.message'',
      ''[data-testid*=\"message\"]'',
      ''.conversation-item'',
      ''[data-testid*=\"conversation\"]'',
      ''.conversation'',
      ''.chat-item'',
      ''.dm-item'']"

text \<open>
  "Check if current element has message-like attributes". \<open>className.includes\<close> is
  reached when the element has neither attribute, and throws a \<open>TypeError\<close> when
  \<open>className\<close> is not a string.
\<close>

definition messageLikeAttributes :: "dom \<Rightarrow> elem \<Rightarrow> js_error + bool" where
  "messageLikeAttributes d c =
     (if hasAttribute d c ''data-testid'' \<or> hasAttribute d c ''role'' then Inr True
      else (case className d c of
              None \<Rightarrow> Inl (JsError ''TypeError'' ''currentElement.className.includes is not a function'')
            | Some cls \<Rightarrow>
                Inr (str_includes cls ''message'' \<or> str_includes cls ''conversation''
                     \<or> str_includes cls ''chat'')))"

text \<open>The \<open>while\<close> loop from \<open>currentElement\<close> at \<open>depth\<close>, with \<open>maxDepth = 10\<close>: it
  returns the current element, throws, or ends.\<close>

function walkUp :: "dom \<Rightarrow> elem option \<Rightarrow> nat \<Rightarrow> elem step" where
  "walkUp d currentElement depth =
     (case currentElement of
        None \<Rightarrow> Continue
      | Some c \<Rightarrow>
          if c \<noteq> body d \<and> depth < 10 then
            (if list_ex (matches d c) containerSelectors then Return c
             else (case messageLikeAttributes d c of
                     Inl e \<Rightarrow> Throw e
                   | Inr True \<Rightarrow> Return c
                   | Inr False \<Rightarrow> walkUp d (parentElement d c) (Suc depth)))
          else Continue)"
  by pat_completeness auto
termination
  by (relation "measure (\<lambda>(d, currentElement, depth). 10 - depth)") auto

declare walkUp.simps [simp del]

text \<open>"If we couldn't find a specific container, try to find the closest div that
  might be a message."\<close>

definition parentDiv :: "dom \<Rightarrow> elem \<Rightarrow> elem option" where
  "parentDiv d reelElement =
     (case parentElement d reelElement of
        None \<Rightarrow> None
      | Some p \<Rightarrow> if tagName d p = ''DIV'' then Some p else None)"

text \<open>\<open>findMessageContainer(reelElement)\<close>; the argument is an element or \<open>null\<close>.
  Every exception is caught and answered with \<open>null\<close>.\<close>

definition findMessageContainer :: "dom \<Rightarrow> elem option \<Rightarrow> elem option" where
  "findMessageContainer d reelElement =
     (case walkUp d reelElement 0 of
        Return c \<Rightarrow> Some c
      | Throw e \<Rightarrow> None
      | Continue \<Rightarrow>
          (case reelElement of
             None \<Rightarrow> None
           | Some r \<Rightarrow> parentDiv d r))"

subsection \<open>\<open>findMessageContainer\<close> of the reel tracker (walks up from the reel)\<close>

definition rt_containerSelectors :: "string list" where
  "rt_containerSelectors =
     [''[role=\"row\"]'',
      ''[role=\"button\"]'',
      ''div[style*=\"padding\"][style*=\"margin\"]'',
      ''[role=\"listitem\"]'',
      ''[data-testid*=\"message\"]'',
      ''[class*=\"message\"]'',
      ''.conversation-item'',
      ''.chat-item'']"

text \<open>The size test of the walk: "verify this is actually a message container by
  checking its size".\<close>

definition containerSized :: "dom \<Rightarrow> elem \<Rightarrow> bool" where
  "containerSized d c = (rectWidth d c > 50 \<and> rectHeight d c > 20)"

text \<open>The size test of the fallback: "reasonable message size".\<close>

definition messageSized :: "dom \<Rightarrow> elem \<Rightarrow> bool" where
  "messageSized d c = (rectWidth d c > 100 \<and> rectHeight d c > 40)"

text \<open>"Instagram-specific message container characteristics": the role, an inline
  padding, margin or background colour, or a class name with \<open>message\<close>, \<open>bubble\<close> or
  \<open>chat\<close>. The class name is a string here.\<close>

definition messageCharacteristics :: "dom \<Rightarrow> elem \<Rightarrow> string \<Rightarrow> bool" where
  "messageCharacteristics d c cls =
     (let hasMessageRole = (getAttribute d c ''role'' = Some ''row''
                            \<or> getAttribute d c ''role'' = Some ''button'');
          hasMessageStyle = (stylePadding d c \<noteq> [] \<or> styleMargin d c \<noteq> []
                             \<or> styleBackgroundColor d c \<noteq> []);
          hasMessageClass = (cls \<noteq> [] \<and>
                             (str_includes cls ''message'' \<or> str_includes cls ''bubble''
                              \<or> str_includes cls ''chat''))
      in hasMessageRole \<or> hasMessageStyle \<or> hasMessageClass)"

text \<open>
  The \<open>while\<close> loop with \<open>maxDepth = 8\<close>. The log line of every iteration splits the
  class name, which throws a \<open>TypeError\<close> when \<open>className\<close> is not a string. The reel
  element itself (depth 0) is skipped.
\<close>

function rt_walkUp :: "dom \<Rightarrow> elem option \<Rightarrow> nat \<Rightarrow> elem step" where
  "rt_walkUp d currentElement depth =
     (case currentElement of
        None \<Rightarrow> Continue
      | Some c \<Rightarrow>
          if c \<noteq> body d \<and> depth < 8 then
            (case className d c of
               None \<Rightarrow> Throw (JsError ''TypeError'' ''currentElement.className.split is not a function'')
             | Some cls \<Rightarrow>
                 if depth > 0 \<and> list_ex (matches d c) rt_containerSelectors \<and> containerSized d c
                 then Return c
                 else if depth > 0 \<and> messageCharacteristics d c cls \<and> containerSized d c
                 then Return c
                 else rt_walkUp d (parentElement d c) (Suc depth))
          else Continue)"
  by pat_completeness auto
termination
  by (relation "measure (\<lambda>(d, currentElement, depth). 8 - depth)") auto

declare rt_walkUp.simps [simp del]

text \<open>The fallback loop over at most three ancestors, from the parent.\<close>

function rt_fallback :: "dom \<Rightarrow> elem option \<Rightarrow> nat \<Rightarrow> elem option" where
  "rt_fallback d fallbackElement fallbackDepth =
     (case fallbackElement of
        None \<Rightarrow> None
      | Some f \<Rightarrow>
          if f \<noteq> body d \<and> fallbackDepth < 3 then
            (if messageSized d f then Some f
             else rt_fallback d (parentElement d f) (Suc fallbackDepth))
          else None)"
  by pat_completeness auto
termination
  by (relation "measure (\<lambda>(d, fallbackElement, fallbackDepth). 3 - fallbackDepth)") auto

declare rt_fallback.simps [simp del]

definition rt_findMessageContainer :: "dom \<Rightarrow> elem option \<Rightarrow> elem option" where
  "rt_findMessageContainer d reelElement =
     (case reelElement of
        None \<Rightarrow> None
      | Some r \<Rightarrow>
          if parentElement d r = None then None
          else
            (case rt_walkUp d (Some r) 0 of
               Return c \<Rightarrow> Some c
             | Throw e \<Rightarrow> None
             | Continue \<Rightarrow> rt_fallback d (parentElement d r) 0))"

text \<open>The first \<open>n\<close> elements of the chain of parents that starts at an element
  (or at \<open>null\<close>).\<close>

fun chain :: "dom \<Rightarrow> nat \<Rightarrow> elem option \<Rightarrow> elem list" where
  "chain d 0 x = []"
| "chain d (Suc n) None = []"
| "chain d (Suc n) (Some x) = x # chain d n (parentElement d x)"

section \<open>Reel identifiers\<close>

subsection \<open>Numbers as text, clock and random source\<close>

definition digit_char :: "nat \<Rightarrow> char" where
  "digit_char n = ''0123456789'' ! n"

function show_nat :: "nat \<Rightarrow> string" where
  "show_nat n = (if n < 10 then [digit_char n] else show_nat (n div 10) @ [digit_char (n mod 10)])"
  by pat_completeness auto
termination
  by (relation "measure id") auto

declare show_nat.simps [simp del]

definition show_int :: "int \<Rightarrow> string" where
  "show_int i = (if i < 0 then CHR ''-'' # show_nat (nat (- i)) else show_nat (nat i))"

text \<open>\<open>array.indexOf(x)\<close>: the index of the first occurrence, or \<open>-1\<close>.\<close>

definition indexOf :: "'a list \<Rightarrow> 'a \<Rightarrow> int" where
  "indexOf xs x = (if x \<in> set xs then int (length (takeWhile (\<lambda>y. y \<noteq> x) xs)) else - 1)"

text \<open>\<open>Date.now()\<close> and the text of \<open>Math.random().toString(36)\<close> at the time of a
  call.\<close>

record clock =
  dateNow :: nat
  mathRandom36 :: string

text \<open>\<open>Date.now().toString().slice(-8)\<close> and
  \<open>Math.random().toString(36).slice(2, 8)\<close>.\<close>

definition timestamp8 :: "clock \<Rightarrow> string" where
  "timestamp8 clk = (let t = show_nat (dateNow clk) in drop (length t - 8) t)"

definition random6 :: "clock \<Rightarrow> string" where
  "random6 clk = take 6 (drop 2 (mathRandom36 clk))"

subsection \<open>\<open>extractReelIdFromUrl\<close> and \<open>extractReelId\<close> of the reel tracker\<close>

text \<open>The class \<open>[A-Za-z0-9_-]\<close>.\<close>

definition id_char :: regex where
  "id_char = Cls [(CHR ''A'', CHR ''Z''), (CHR ''a'', CHR ''z''), (CHR ''0'', CHR ''9''),
                  (CHR ''_'', CHR ''_''), (CHR ''-'', CHR ''-'')]"

definition rt_urlPatterns :: "regex list" where
  "rt_urlPatterns =
     [Seq (Str ''/reel/'') (Group (Plus id_char)),
      Seq (Str ''/reels/'') (Group (Plus id_char)),
      Seq (Str ''reel='') (Group (Plus id_char)),
      Seq (Str ''video_id='') (Group (Plus id_char)),
      Seq (Str ''media_id='') (Group (Plus id_char))]"

text \<open>The loop over the patterns: the first pattern that matches with a group longer
  than 3 characters gives the identifier.\<close>

fun meaningful_id :: "regex list \<Rightarrow> string \<Rightarrow> string option" where
  "meaningful_id [] url = None"
| "meaningful_id (pattern # rest) url =
     (case regex_exec False pattern url of
        None \<Rightarrow> meaningful_id rest url
      | Some m \<Rightarrow>
          (case match1 url m of
             None \<Rightarrow> meaningful_id rest url
           | Some g \<Rightarrow> if g \<noteq> [] \<and> length g > 3 then Some g else meaningful_id rest url))"

text \<open>\<open>extractReelIdFromUrl(url)\<close> for a string or \<open>null\<close>/\<open>undefined\<close>.\<close>

definition extractReelIdFromUrl :: "string option \<Rightarrow> string option" where
  "extractReelIdFromUrl url =
     (if \<not> truthy_str url then None else meaningful_id rt_urlPatterns (the url))"

text \<open>The argument of \<open>extractReelId\<close>: any JavaScript value.\<close>

datatype js_value =
    Null
  | Undefined
  | StringValue string
  | ElementValue elem
  | OtherObject
  | OtherPrimitive

text \<open>\<open>x.href || x.getAttribute('href')\<close>, then the identifier of that URL if the
  URL is truthy.\<close>

definition id_from_href :: "dom \<Rightarrow> elem \<Rightarrow> string option" where
  "id_from_href d x =
     (let url = or_str (href d x) (getAttribute d x ''href'')
      in if truthy_str url then extractReelIdFromUrl url else None)"

definition id_from_src :: "dom \<Rightarrow> elem \<Rightarrow> string option" where
  "id_from_src d x =
     (let url = or_str (src d x) (getAttribute d x ''src'')
      in if truthy_str url then extractReelIdFromUrl url else None)"

text \<open>\<open>element.tagName === T ? element : element.querySelector(t)\<close>.\<close>

definition self_or_query :: "dom \<Rightarrow> elem \<Rightarrow> string \<Rightarrow> string \<Rightarrow> elem option" where
  "self_or_query d x upper lower =
     (if tagName d x = upper then Some x else querySelectorIn d x lower)"

text \<open>
  The branch of \<open>extractReelId\<close> for an element, inside the \<open>try\<close> block: the URL
  of the element, of its video, of its image; then an identifier made of the position
  of the message container among its siblings and of the clock; at last an identifier
  made of the clock and a random text. It throws when the message container has no
  parent.
\<close>

definition element_reelId :: "clock \<Rightarrow> dom \<Rightarrow> elem \<Rightarrow> js_error + string" where
  "element_reelId clk d x =
     (case id_from_href d x of
        Some rid \<Rightarrow> Inr rid
      | None \<Rightarrow>
     (case (case self_or_query d x ''VIDEO'' ''video'' of
              None \<Rightarrow> None | Some v \<Rightarrow> id_from_src d v) of
        Some rid \<Rightarrow> Inr rid
      | None \<Rightarrow>
     (case (case self_or_query d x ''IMG'' ''img'' of
              None \<Rightarrow> None | Some i \<Rightarrow> id_from_src d i) of
        Some rid \<Rightarrow> Inr rid
      | None \<Rightarrow>
     (case rt_findMessageContainer d (Some x) of
        Some container \<Rightarrow>
          (case parentElement d container of
             None \<Rightarrow> Inl (JsError ''TypeError''
                            ''Cannot read properties of null (reading 'children')'')
           | Some p \<Rightarrow>
               Inr (''msg_'' @ show_int (indexOf (children d p) container) @ ''_''
                    @ timestamp8 clk))
      | None \<Rightarrow> Inr (''unknown_'' @ show_nat (dateNow clk) @ ''_'' @ random6 clk)))))"

text \<open>The \<open>try\<close> block of \<open>extractReelId\<close>. \<open>typeof null\<close> is \<open>'object'\<close>, so
  \<open>null\<close> reaches \<open>null.nodeType\<close>, which throws.\<close>

definition extractReelId_try :: "clock \<Rightarrow> dom \<Rightarrow> js_value \<Rightarrow> js_error + string option" where
  "extractReelId_try clk d v =
     (case v of
        Null \<Rightarrow> Inl (JsError ''TypeError'' ''Cannot read properties of null (reading 'nodeType')'')
      | ElementValue x \<Rightarrow>
          (case element_reelId clk d x of Inl e \<Rightarrow> Inl e | Inr rid \<Rightarrow> Inr (Some rid))
      | StringValue url \<Rightarrow> Inr (extractReelIdFromUrl (Some url))
      | Undefined \<Rightarrow> Inr None
      | OtherObject \<Rightarrow> Inr None
      | OtherPrimitive \<Rightarrow> Inr None)"

text \<open>\<open>extractReelId(elementOrUrl)\<close>: the identifier, or \<open>null\<close>. The \<open>catch\<close> block
  returns an identifier of its own.\<close>

definition extractReelId :: "clock \<Rightarrow> dom \<Rightarrow> js_value \<Rightarrow> string option" where
  "extractReelId clk d v =
     (case extractReelId_try clk d v of
        Inl e \<Rightarrow> Some (''error_'' @ show_nat (dateNow clk) @ ''_'' @ random6 clk)
      | Inr r \<Rightarrow> r)"

subsection \<open>\<open>ReelDetector.extractReelId\<close>\<close>

text \<open>The pattern \<open>/\/reel\/([a-zA-Z0-9_-]+)/i\<close> and the identifier it finds in a
  URL.\<close>

definition reel_pattern :: regex where
  "reel_pattern = Seq (Str ''/reel/'') (Group (Plus id_char))"

definition reel_match :: "string \<Rightarrow> string option" where
  "reel_match url =
     (case regex_exec True reel_pattern url of None \<Rightarrow> None | Some m \<Rightarrow> match1 url m)"

text \<open>\<open>link.href.match(...)\<close> on an element found by a selector for anchors; it
  throws when the element has no \<open>href\<close> property.\<close>

definition link_match :: "dom \<Rightarrow> elem \<Rightarrow> js_error + string option" where
  "link_match d link =
     (case href d link of
        None \<Rightarrow> Inl (JsError ''TypeError'' ''Cannot read properties of undefined (reading 'match')'')
      | Some url \<Rightarrow> Inr (reel_match url))"

fun first_link_match :: "dom \<Rightarrow> elem list \<Rightarrow> js_error + string option" where
  "first_link_match d [] = Inr None"
| "first_link_match d (link # rest) =
     (case link_match d link of
        Inl e \<Rightarrow> Inl e
      | Inr (Some rid) \<Rightarrow> Inr (Some rid)
      | Inr None \<Rightarrow> first_link_match d rest)"

text \<open>\<open>extractReelId(element)\<close> of the class \<open>ReelDetector\<close>: the data attributes
  \<open>data-reel-id\<close>, \<open>data-reel\<close>, \<open>data-id\<close>, the element's own URL, the closest
  enclosing reel link, the reel links inside; \<open>null\<close> when none gives an identifier.
  The method has no \<open>try\<close> block.\<close>

definition rd_extractReelId :: "dom \<Rightarrow> elem option \<Rightarrow> js_error + string option" where
  "rd_extractReelId d arg =
     (case arg of
        None \<Rightarrow> Inr None
      | Some x \<Rightarrow>
          (let dataReelId = or_str (or_str (getAttribute d x ''data-reel-id'')
                                           (getAttribute d x ''data-reel''))
                                   (getAttribute d x ''data-id'')
           in if truthy_str dataReelId then Inr dataReelId
              else
                (case (let url = or_str (href d x) (getAttribute d x ''href'')
                       in if truthy_str url then reel_match (the url) else None) of
                   Some rid \<Rightarrow> Inr (Some rid)
                 | None \<Rightarrow>
                     (case (case closest d x ''a[href*=\"/reel/\"]'' of
                              None \<Rightarrow> Inr None
                            | Some parentLink \<Rightarrow> link_match d parentLink) of
                        Inl e \<Rightarrow> Inl e
                      | Inr (Some rid) \<Rightarrow> Inr (Some rid)
                      | Inr None \<Rightarrow>
                          first_link_match d (querySelectorAllIn d x ''a[href*=\"/reel/\"]'')))))"

section \<open>Reel detection (class \<open>ReelDetector\<close>)\<close>

text \<open>
  The result of a reel detection. \<open>messageElement\<close> is the argument as it was
  passed (an element, or \<open>None\<close> for \<open>null\<close>); \<open>linkElement\<close>, \<open>visualElement\<close> and
  \<open>error\<close> are present on some results only. Confidences are exact decimal numbers.
\<close>

record ReelResult =
  isReel :: bool
  confidence :: real
  reelId :: "string option"
  detectionMethod :: string
  reelUrl :: "string option"
  messageElement :: "elem option"
  linkElement :: "elem option"
  visualElement :: "elem option"
  error :: "string option"

definition not_reel :: "string \<Rightarrow> elem option \<Rightarrow> ReelResult" where
  "not_reel meth msg =
     \<lparr>isReel = False, confidence = 0, reelId = None, detectionMethod = meth, reelUrl = None,
      messageElement = msg, linkElement = None, visualElement = None, error = None\<rparr>"

definition reel_error :: "js_error \<Rightarrow> elem option \<Rightarrow> ReelResult" where
  "reel_error e msg =
     \<lparr>isReel = False, confidence = 0, reelId = None, detectionMethod = ''error'', reelUrl = None,
      messageElement = msg, linkElement = None, visualElement = None,
      error = Some (message e)\<rparr>"

text \<open>\<open>calculateReelConfidence(method, reelId, element)\<close>.\<close>

definition calculateReelConfidence ::
  "dom \<Rightarrow> string \<Rightarrow> string option \<Rightarrow> elem option \<Rightarrow> real" where
  "calculateReelConfidence d meth rid el =
     (let base = (if meth = ''url_pattern'' then 0.9
                  else if meth = ''visual_indicators'' then 0.75
                  else 0.5);
          with_id = (if truthy_str rid \<and> length (the rid) \<ge> 8 then base + 0.05 else base);
          with_testid = (case el of
                           None \<Rightarrow> with_id
                         | Some x \<Rightarrow>
                             if truthy_str (getAttribute d x ''data-testid'')
                             then with_id + 0.05 else with_id)
      in min with_testid 1.0)"

text \<open>The four URL patterns of \<open>detectByUrlPattern\<close>, all with the \<open>i\<close> flag.\<close>

definition urlPatterns :: "regex list" where
  "urlPatterns =
     [Seq (Str ''instagram.com/reel/'') (Group (Plus id_char)),
      Seq (Str ''/reel/'') (Group (Plus id_char)),
      Seq (Str ''ig.me/'') (Group (Plus id_char)),
      Seq (Str ''reel/'') (Group (Plus id_char))]"

text \<open>The loop over the patterns on one text: the first pattern that matches.\<close>

fun first_pattern :: "regex list \<Rightarrow> string \<Rightarrow> rmatch option" where
  "first_pattern [] t = None"
| "first_pattern (pattern # rest) t =
     (case regex_exec True pattern t of
        None \<Rightarrow> first_pattern rest t
      | Some m \<Rightarrow> Some m)"

text \<open>The loop over the links: the first link with a truthy URL that a pattern
  matches, with the URL and the match.\<close>

fun first_reel_link :: "dom \<Rightarrow> elem list \<Rightarrow> (elem \<times> string \<times> rmatch) option" where
  "first_reel_link d [] = None"
| "first_reel_link d (link # rest) =
     (let url = or_str (href d link) (getAttribute d link ''href'')
      in if \<not> truthy_str url then first_reel_link d rest
         else (case first_pattern urlPatterns (the url) of
                 None \<Rightarrow> first_reel_link d rest
               | Some m \<Rightarrow> Some (link, the url, m)))"

text \<open>\<open>detectByUrlPattern(messageElement)\<close>; a call on \<open>null\<close> throws.\<close>

definition detectByUrlPattern :: "dom \<Rightarrow> elem option \<Rightarrow> js_error + ReelResult" where
  "detectByUrlPattern d msg =
     (case msg of
        None \<Rightarrow> Inl (JsError ''TypeError''
                       ''Cannot read properties of null (reading 'querySelectorAll')'')
      | Some x \<Rightarrow>
          (case first_reel_link d (querySelectorAllIn d x ''a[href]'') of
             Some (link, url, m) \<Rightarrow>
               Inr \<lparr>isReel = True,
                    confidence = calculateReelConfidence d ''url_pattern'' (match1 url m) (Some link),
                    reelId = match1 url m, detectionMethod = ''url_pattern'',
                    reelUrl = Some url, messageElement = msg, linkElement = Some link,
                    visualElement = None, error = None\<rparr>
           | None \<Rightarrow>
               (case first_pattern urlPatterns (textContent d x) of
                  Some m \<Rightarrow>
                    Inr \<lparr>isReel = True,
                         confidence = calculateReelConfidence d ''url_pattern''
                                        (match1 (textContent d x) m) None,
                         reelId = match1 (textContent d x) m, detectionMethod = ''url_pattern'',
                         reelUrl = Some (match0 (textContent d x) m), messageElement = msg,
                         linkElement = None, visualElement = None, error = None\<rparr>
                | None \<Rightarrow> Inr (not_reel ''url_pattern'' msg))))"

definition visualSelectors :: "string list" where
  "visualSelectors =
     [''[aria-label*=\"reel\"]'',
      ''[aria-label*=\"Reel\"]'',
      ''[data-testid*=\"reel\"]'',
      ''[data-testid*=\"Reel\"]'',
      ''[class*=\"reel\"]'',
      ''[class*=\"Reel\"]'',
      ''[role=\"button\"][aria-label*=\"reel\"]'',
      ''[role=\"button\"][aria-label*=\"Reel\"]'']"

text \<open>The loop over the selectors: the first element found by the first selector
  that finds something.\<close>

fun first_visual :: "dom \<Rightarrow> elem \<Rightarrow> string list \<Rightarrow> elem option" where
  "first_visual d x [] = None"
| "first_visual d x (sel # rest) =
     (case querySelectorAllIn d x sel of
        [] \<Rightarrow> first_visual d x rest
      | v # _ \<Rightarrow> Some v)"

text \<open>\<open>detectByVisualIndicators(messageElement)\<close>.\<close>

definition detectByVisualIndicators :: "dom \<Rightarrow> elem option \<Rightarrow> js_error + ReelResult" where
  "detectByVisualIndicators d msg =
     (case msg of
        None \<Rightarrow> Inl (JsError ''TypeError''
                       ''Cannot read properties of null (reading 'querySelectorAll')'')
      | Some x \<Rightarrow>
          (case first_visual d x visualSelectors of
             None \<Rightarrow> Inr (not_reel ''visual_indicators'' msg)
           | Some v \<Rightarrow>
               (case rd_extractReelId d (Some v) of
                  Inl e \<Rightarrow> Inl e
                | Inr rid \<Rightarrow>
                    Inr \<lparr>isReel = True,
                         confidence = calculateReelConfidence d ''visual_indicators'' rid (Some v),
                         reelId = rid, detectionMethod = ''visual_indicators'',
                         reelUrl = (if truthy_str rid
                                    then Some (''https://instagram.com/reel/'' @ the rid)
                                    else None),
                         messageElement = msg, linkElement = None, visualElement = Some v,
                         error = None\<rparr>)))"

definition confidenceThreshold :: real where
  "confidenceThreshold = 0.7"

text \<open>The \<open>try\<close> block of \<open>detectReels\<close>.\<close>

definition detectReels_try :: "dom \<Rightarrow> elem option \<Rightarrow> js_error + ReelResult" where
  "detectReels_try d msg =
     (case detectByUrlPattern d msg of
        Inl e \<Rightarrow> Inl e
      | Inr urlResult \<Rightarrow>
          if isReel urlResult \<and> confidence urlResult \<ge> confidenceThreshold then Inr urlResult
          else
            (case detectByVisualIndicators d msg of
               Inl e \<Rightarrow> Inl e
             | Inr visualResult \<Rightarrow>
                 if isReel visualResult \<and> confidence visualResult \<ge> confidenceThreshold
                 then Inr visualResult
                 else Inr (not_reel ''none'' msg)))"

text \<open>\<open>detectReels(messageElement)\<close>: every exception is caught and reported in
  the result.\<close>

definition detectReels :: "dom \<Rightarrow> elem option \<Rightarrow> ReelResult" where
  "detectReels d msg =
     (case detectReels_try d msg of Inl e \<Rightarrow> reel_error e msg | Inr r \<Rightarrow> r)"

text \<open>The argument of \<open>detectReelsBatch\<close>: an array of elements and \<open>null\<close>s, or a
  value that is not an array.\<close>

datatype batch_arg = ArrayValue "elem option list" | NotAnArray

text \<open>The body of \<open>detectReelsBatch\<close>, which is the same in both variants of the
  class; \<open>detector\<close> is the method \<open>this.detectReels\<close>.\<close>

definition detectReelsBatch_with :: "(elem option \<Rightarrow> 'r) \<Rightarrow> batch_arg \<Rightarrow> 'r list" where
  "detectReelsBatch_with detector messageElements =
     (case messageElements of
        NotAnArray \<Rightarrow> []
      | ArrayValue xs \<Rightarrow> map detector xs)"

definition detectReelsBatch :: "dom \<Rightarrow> batch_arg \<Rightarrow> ReelResult list" where
  "detectReelsBatch d messageElements = detectReelsBatch_with (detectReels d) messageElements"

section \<open>The selector-table classifier with cache (class \<open>DOMDetector\<close>, first variant)\<close>

text \<open>
  A detection result is a JavaScript object. The first variant of \<open>DOMDetector\<close>
  fills \<open>elements\<close>, \<open>confidence\<close>, \<open>method\<close>, \<open>cached\<close> and \<open>timestamp\<close>; the
  content-script variant fills \<open>elements\<close>, \<open>confidence\<close>, \<open>method\<close>, \<open>selector\<close>
  and, when it caught an exception, \<open>error\<close>. A field an object does not have is
  \<open>None\<close>.
\<close>

record DetectionResult =
  elements :: "elem list"
  confidence :: real
  "method" :: string
  cached :: "bool option"
  timestamp :: "int option"
  selector :: "string option"
  error :: "string option"

text \<open>The strategy table passed to \<open>detect\<close>: an object with some of the keys
  \<open>instagram\<close>, \<open>testId\<close>, \<open>ariaLabel\<close>, \<open>attribute\<close>, \<open>class\<close>, \<open>structure\<close>,
  \<open>fallback\<close>.\<close>

record selectors =
  sel_instagram :: "string option"
  sel_testId :: "string option"
  sel_ariaLabel :: "string option"
  sel_attribute :: "string option"
  sel_class :: "string option"
  sel_structure :: "string option"
  sel_fallback :: "string option"

text \<open>\<open>this.cachedSelectors\<close>: cache key to \<open>{ selector, method }\<close>. The keys
  are the names of the entity types (\<open>messageContainers\<close>, \<open>timestampElements\<close>,
  \<open>loadingStates\<close>); a key that names a property of \<open>Object.prototype\<close> is not a
  cache key of this model.\<close>

type_synonym selector_cache = "string \<rightharpoonup> (string \<times> string)"

definition detected :: "int \<Rightarrow> elem list \<Rightarrow> real \<Rightarrow> string \<Rightarrow> bool \<Rightarrow> DetectionResult" where
  "detected now els conf meth from_cache =
     \<lparr>elements = els, confidence = conf, method = meth, cached = Some from_cache,
      timestamp = Some now, selector = None, error = None\<rparr>"

text \<open>
  A strategy whose block declares its result with \<open>let elements = ...\<close>
  (\<open>instagram\<close>, \<open>testId\<close>, \<open>ariaLabel\<close>, \<open>attribute\<close>): on a match the selector is
  cached under the key and the result returned.
\<close>

definition strategy_let ::
  "dom \<Rightarrow> int \<Rightarrow> selector_cache \<Rightarrow> string \<Rightarrow> string option \<Rightarrow> string \<Rightarrow> real
     \<Rightarrow> (DetectionResult \<times> selector_cache) step" where
  "strategy_let doc now cache cacheKey sel meth conf =
     (if truthy_str sel then
        (case querySelectorAll doc (the sel) of
           Inl e \<Rightarrow> Throw e
         | Inr els \<Rightarrow>
             if length els > 0
             then Return (detected now els conf meth False, cache(cacheKey \<mapsto> (the sel, meth)))
             else Continue)
      else Continue)"

text \<open>
  The blocks of \<open>class\<close>, \<open>structure\<close> and \<open>fallback\<close> assign
  \<open>elements = document.querySelectorAll(...)\<close> without a declaration. Every
  \<open>let elements\<close> and \<open>const elements\<close> of the method is scoped to an earlier block, and
  a class body is strict-mode code: after the right-hand side is evaluated, the
  assignment to the unresolvable name throws a \<open>ReferenceError\<close>.
\<close>

definition strategy_assign ::
  "dom \<Rightarrow> int \<Rightarrow> selector_cache \<Rightarrow> string \<Rightarrow> string option \<Rightarrow> string \<Rightarrow> real
     \<Rightarrow> (DetectionResult \<times> selector_cache) step" where
  "strategy_assign doc now cache cacheKey sel meth conf =
     (if truthy_str sel then
        (case querySelectorAll doc (the sel) of
           Inl e \<Rightarrow> Throw e
         | Inr els \<Rightarrow> Throw (JsError ''ReferenceError'' ''elements is not defined''))
      else Continue)"

definition none_result :: "int \<Rightarrow> DetectionResult" where
  "none_result now = detected now [] 0 ''none'' False"

text \<open>The cache look-up at the head of \<open>detect\<close>.\<close>

definition cache_step ::
  "dom \<Rightarrow> int \<Rightarrow> selector_cache \<Rightarrow> string \<Rightarrow> (DetectionResult \<times> selector_cache) step" where
  "cache_step doc now cache cacheKey =
     (case cache cacheKey of
        None \<Rightarrow> Continue
      | Some (sel, meth) \<Rightarrow>
          (case querySelectorAll doc sel of
             Inl e \<Rightarrow> Throw e
           | Inr els \<Rightarrow>
               if length els > 0 then Return (detected now els 1 meth True, cache)
               else Continue))"

text \<open>The strategies of the table, in the order of the source.\<close>

definition search ::
  "dom \<Rightarrow> int \<Rightarrow> selector_cache \<Rightarrow> selectors \<Rightarrow> string \<Rightarrow> (DetectionResult \<times> selector_cache) step" where
  "search doc now cache sels cacheKey =
     orElse (strategy_let doc now cache cacheKey (sel_instagram sels) ''instagram'' 0.95)
    (orElse (strategy_let doc now cache cacheKey (sel_testId sels) ''testId'' 0.9)
    (orElse (strategy_let doc now cache cacheKey (sel_ariaLabel sels) ''ariaLabel'' 0.85)
    (orElse (strategy_let doc now cache cacheKey (sel_attribute sels) ''attribute'' 0.8)
    (orElse (strategy_assign doc now cache cacheKey (sel_class sels) ''class'' 0.7)
    (orElse (strategy_assign doc now cache cacheKey (sel_structure sels) ''structure'' 0.5)
            (strategy_assign doc now cache cacheKey (sel_fallback sels) ''fallback'' 0.3))))))"

text \<open>\<open>detect(selectors, cacheKey)\<close>: the result and the cache after the call, or the
  exception with which the returned promise rejects.\<close>

definition detect ::
  "dom \<Rightarrow> int \<Rightarrow> selector_cache \<Rightarrow> selectors \<Rightarrow> string
     \<Rightarrow> js_error + (DetectionResult \<times> selector_cache)" where
  "detect doc now cache sels cacheKey =
     finish (orElse (cache_step doc now cache cacheKey) (search doc now cache sels cacheKey))
            (none_result now, cache)"

text \<open>The filter of \<open>detectWithTextPattern\<close>: the trimmed text is not empty, matches
  the pattern and is shorter than 50 characters.\<close>

definition time_like :: "dom \<Rightarrow> (string \<Rightarrow> bool) \<Rightarrow> elem \<Rightarrow> bool" where
  "time_like doc textPattern element =
     (let text = trim (textContent doc element)
      in text \<noteq> [] \<and> textPattern text \<and> length text < 50)"

text \<open>\<open>detectWithTextPattern(selectors, cacheKey, textPattern)\<close>; \<open>textPattern\<close> is
  the \<open>test\<close> of a regular expression without the \<open>g\<close> flag.\<close>

definition detectWithTextPattern ::
  "dom \<Rightarrow> int \<Rightarrow> selector_cache \<Rightarrow> selectors \<Rightarrow> string \<Rightarrow> (string \<Rightarrow> bool)
     \<Rightarrow> js_error + (DetectionResult \<times> selector_cache)" where
  "detectWithTextPattern doc now cache sels cacheKey textPattern =
     (case detect doc now cache sels cacheKey of
        Inl e \<Rightarrow> Inl e
      | Inr (standardResult, cache') \<Rightarrow>
          if length (elements standardResult) > 0 then Inr (standardResult, cache')
          else
            (case querySelectorAll doc
                    (the (or_str (sel_fallback sels) (Some ''span, time, div''))) of
               Inl e \<Rightarrow> Inl e
             | Inr allElements \<Rightarrow>
                 (let timeElements = filter (time_like doc textPattern) allElements
                  in if length timeElements > 0
                     then Inr (detected now timeElements 0.6 ''text-pattern'' False, cache')
                     else Inr (none_result now, cache'))))"

definition no_selectors :: selectors where
  "no_selectors = \<lparr>sel_instagram = None, sel_testId = None, sel_ariaLabel = None,
     sel_attribute = None, sel_class = None, sel_structure = None, sel_fallback = None\<rparr>"

definition messageContainers_selectors :: selectors where
  "messageContainers_selectors = no_selectors
     \<lparr>sel_attribute := Some ''div[role=\"none\"][class*=\"x78zum5 xdt5ytf x1n2onr6\"]'',
      sel_class := Some ''.message-container'',
      sel_structure := Some ''div > div > div > div[role=\"none\"]'',
      sel_instagram := Some ''div[data-testid=\"message-bubble\"], div[role=\"button\"][tabindex=\"0\"]'',
      sel_fallback := Some ''div[class*=\"message\"], div[class*=\"bubble\"]''\<rparr>"

definition detectMessageContainers ::
  "dom \<Rightarrow> int \<Rightarrow> selector_cache \<Rightarrow> js_error + (DetectionResult \<times> selector_cache)" where
  "detectMessageContainers doc now cache =
     detect doc now cache messageContainers_selectors ''messageContainers''"

definition timestampElements_selectors :: selectors where
  "timestampElements_selectors = no_selectors
     \<lparr>sel_ariaLabel := Some ''[aria-label*=\"ago\"], [aria-label*=\"yesterday\"], [aria-label*=\"today\"], [aria-label*=\"minute\"], [aria-label*=\"hour\"], [aria-label*=\"day\"]'',
      sel_testId := Some ''span[data-testid=\"message-timestamp\"], span[data-testid=\"timestamp\"]'',
      sel_class := Some ''.timestamp, .time, [class*=\"timestamp\"], [class*=\"time\"]'',
      sel_structure := Some ''div > span, div > time, div > div[class*=\"time\"]'',
      sel_fallback := Some ''span, time, div''\<rparr>"

text \<open>The pattern \<open>/\b\d+[mhd]\b|\byesterday\b|\btoday\b|\bnow\b/i\<close>.\<close>

definition timestamp_pattern :: regex where
  "timestamp_pattern =
     Alt (Seqs [WordB, Plus digit,
                Cls [(CHR ''m'', CHR ''m''), (CHR ''h'', CHR ''h''), (CHR ''d'', CHR ''d'')], WordB])
    (Alt (Seqs [WordB, Str ''yesterday'', WordB])
    (Alt (Seqs [WordB, Str ''today'', WordB])
         (Seqs [WordB, Str ''now'', WordB])))"

definition detectTimestampElements ::
  "dom \<Rightarrow> int \<Rightarrow> selector_cache \<Rightarrow> js_error + (DetectionResult \<times> selector_cache)" where
  "detectTimestampElements doc now cache =
     detectWithTextPattern doc now cache timestampElements_selectors ''timestampElements''
       (regex_test True timestamp_pattern)"

definition loadingStates_selectors :: selectors where
  "loadingStates_selectors = no_selectors
     \<lparr>sel_attribute := Some ''div[data-testid=\"loading-spinner\"]'',
      sel_class := Some ''.loading-spinner'',
      sel_structure := Some ''div > div[aria-busy=\"true\"]''\<rparr>"

definition detectLoadingStates ::
  "dom \<Rightarrow> int \<Rightarrow> selector_cache \<Rightarrow> js_error + (DetectionResult \<times> selector_cache)" where
  "detectLoadingStates doc now cache =
     detect doc now cache loadingStates_selectors ''loadingStates''"

section \<open>The selector-list classifier (class \<open>DOMDetector\<close>, content-script variant)\<close>

text \<open>\<open>try { body } catch (error) { return handler(error) }\<close> around a body that
  returns.\<close>

definition try_catch :: "js_error + 'a \<Rightarrow> (js_error \<Rightarrow> 'a) \<Rightarrow> js_error + 'a" where
  "try_catch attempt handler = (case attempt of Inl e \<Rightarrow> Inr (handler e) | Inr r \<Rightarrow> Inr r)"

definition cs_messageContainers :: "string list" where
  "cs_messageContainers =
     [''[data-testid=\"message-bubble\"]'',
      ''[data-testid=\"message\"]'',
      ''div[role=\"row\"][data-testid*=\"message\"]'',
      ''[aria-label*=\"message\"]'',
      ''[data-testid=\"conversation\"] div[role=\"button\"]'',
      ''[data-testid=\"conversation\"] div[data-testid*=\"message\"]'',
      ''[role=\"main\"] div[role=\"button\"]'',
      ''main div[role=\"button\"]'']"

definition cs_timestampElements :: "string list" where
  "cs_timestampElements =
     [''[aria-label*=\"ago\"]'',
      ''[aria-label*=\"yesterday\"]'',
      ''[aria-label*=\"today\"]'',
      ''[aria-label*=\"minute\"]'',
      ''[aria-label*=\"hour\"]'',
      ''[aria-label*=\"day\"]'',
      ''span[data-testid=\"message-timestamp\"]'',
      ''span[data-testid=\"timestamp\"]'',
      ''.timestamp'',
      ''.time'',
      ''[class*=\"timestamp\"]'',
      ''[class*=\"time\"]'',
      ''div > span'',
      ''div > time'',
      ''div > div[class*=\"time\"]'',
      ''span'',
      ''time'',
      ''div'']"

text \<open>The confidence offered by the selector at index \<open>i\<close> that found \<open>n\<close>
  elements, and the method it sets.\<close>

definition messageContainers_tier :: "nat \<Rightarrow> nat \<Rightarrow> real \<times> string" where
  "messageContainers_tier i n =
     (if i < 4 then (min 0.95 (0.7 + real n * 0.02), ''instagram-specific'')
      else if i < 6 then (min 0.85 (0.6 + real n * 0.02), ''conversation-structure'')
      else (min 0.7 (0.4 + real n * 0.02), ''fallback''))"

definition timestampElements_tier :: "nat \<Rightarrow> nat \<Rightarrow> real \<times> string" where
  "timestampElements_tier i n =
     (if i < 6 then (min 0.95 (0.75 + real n * 0.02), ''instagram-aria-label'')
      else if i < 8 then (min 0.9 (0.65 + real n * 0.02), ''instagram-testid'')
      else if i < 11 then (min 0.8 (0.55 + real n * 0.02), ''instagram-classes'')
      else if i < 14 then (min 0.7 (0.45 + real n * 0.02), ''structure-based'')
      else (min 0.6 (0.35 + real n * 0.02), ''fallback''))"

text \<open>
  The \<open>for\<close> loop over the selector list from index \<open>i\<close>, with the accumulated
  \<open>elements\<close>, \<open>confidence\<close> and \<open>method\<close>: every selector is queried, what it finds
  is appended, the confidence is the maximum of the offers and the method is that of
  the last selector that found something.
\<close>

fun scan_selectors ::
  "dom \<Rightarrow> (nat \<Rightarrow> nat \<Rightarrow> real \<times> string) \<Rightarrow> nat \<Rightarrow> string list
     \<Rightarrow> elem list \<times> real \<times> string \<Rightarrow> js_error + (elem list \<times> real \<times> string)" where
  "scan_selectors doc tier i [] acc = Inr acc"
| "scan_selectors doc tier i (sel # rest) (els, conf, meth) =
     (case querySelectorAll doc sel of
        Inl e \<Rightarrow> Inl e
      | Inr found \<Rightarrow>
          if length found > 0
          then scan_selectors doc tier (Suc i) rest
                 (els @ found, max conf (fst (tier i (length found))), snd (tier i (length found)))
          else scan_selectors doc tier (Suc i) rest (els, conf, meth))"

text \<open>"Ensure minimum confidence when elements are found."\<close>

definition ensure_minimum :: "elem list \<Rightarrow> real \<Rightarrow> real" where
  "ensure_minimum els conf = (if length els > 0 \<and> conf < 0.7 then 0.7 else conf)"

definition cs_result :: "elem list \<Rightarrow> real \<Rightarrow> string \<Rightarrow> string list \<Rightarrow> DetectionResult" where
  "cs_result els conf meth table =
     \<lparr>elements = els, confidence = conf, method = meth, cached = None, timestamp = None,
      selector = (case table of [] \<Rightarrow> None | first # _ \<Rightarrow> Some first), error = None\<rparr>"

definition cs_error_result :: "js_error \<Rightarrow> DetectionResult" where
  "cs_error_result e =
     \<lparr>elements = [], confidence = 0, method = ''error'', cached = None, timestamp = None,
      selector = None, error = Some (message e)\<rparr>"

definition cs_detectMessageContainers :: "dom \<Rightarrow> js_error + DetectionResult" where
  "cs_detectMessageContainers doc =
     try_catch
       (case scan_selectors doc messageContainers_tier 0 cs_messageContainers ([], 0, ''none'') of
          Inl e \<Rightarrow> Inl e
        | Inr (els, conf, meth) \<Rightarrow>
            Inr (cs_result els (ensure_minimum els conf) meth cs_messageContainers))
       cs_error_result"

text \<open>The eight patterns of \<open>detectTimestampsByTextPattern\<close>, each with its \<open>i\<close>
  flag.\<close>

definition space_class :: regex where
  "space_class = Cls [(CHR 0x09, CHR 0x0D), (CHR '' '', CHR '' ''),
                      (CHR 0xA0, CHR 0xA0)]"

definition timePatterns :: "(bool \<times> regex) list" where
  "timePatterns =
     [(False, Seqs [WordB, Plus digit,
                    Cls [(CHR ''m'', CHR ''m''), (CHR ''h'', CHR ''h''), (CHR ''d'', CHR ''d'')],
                    WordB]),
      (True, Seqs [WordB, Str ''yesterday'', WordB]),
      (True, Seqs [WordB, Str ''today'', WordB]),
      (True, Seqs [WordB, Str ''now'', WordB]),
      (False, Seqs [WordB, digit, Opt digit, Chr CHR '':'', digit, digit, WordB]),
      (True, Seqs [WordB, digit, Opt digit, Chr CHR '':'', digit, digit, Star space_class,
                   Group (Alt (Str ''am'') (Str ''pm'')), WordB]),
      (False, Seqs [WordB, digit, digit, digit, digit, Chr CHR ''-'', digit, digit,
                    Chr CHR ''-'', digit, digit, WordB]),
      (False, Seqs [WordB, digit, Opt digit, Chr CHR ''/'', digit, Opt digit, Chr CHR ''/'',
                    digit, digit, Opt (Seq digit (Opt digit)), WordB])]"

definition cs_time_like :: "dom \<Rightarrow> elem \<Rightarrow> bool" where
  "cs_time_like doc element =
     (let text = trim (textContent doc element)
      in if text = [] \<or> length text > 50 then False
         else list_ex (\<lambda>(ic, pattern). regex_test ic pattern text) timePatterns)"

definition detectTimestampsByTextPattern :: "dom \<Rightarrow> js_error + elem list" where
  "detectTimestampsByTextPattern doc =
     (case querySelectorAll doc ''span, time, div'' of
        Inl e \<Rightarrow> Inl e
      | Inr allElements \<Rightarrow> Inr (filter (cs_time_like doc) allElements))"

definition cs_detectTimestampElements :: "dom \<Rightarrow> js_error + DetectionResult" where
  "cs_detectTimestampElements doc =
     try_catch
       (case scan_selectors doc timestampElements_tier 0 cs_timestampElements ([], 0, ''none'') of
          Inl e \<Rightarrow> Inl e
        | Inr (els, conf, meth) \<Rightarrow>
            (case (if length els = 0
                   then (case detectTimestampsByTextPattern doc of
                           Inl e \<Rightarrow> Inl e
                         | Inr timeElements \<Rightarrow>
                             if length timeElements > 0
                             then Inr (els @ timeElements, 0.6, ''text-pattern'')
                             else Inr (els, conf, meth))
                   else Inr (els, conf, meth)) of
               Inl e \<Rightarrow> Inl e
             | Inr (els', conf', meth') \<Rightarrow>
                 Inr (cs_result els' (ensure_minimum els' conf') meth' cs_timestampElements)))
       cs_error_result"

section \<open>Scroll pacing controller (utils/scroll-controller.js)\<close>

subsection \<open>Controller state and \<open>stopScrolling\<close>\<close>

text \<open>
  A timer handle is the integer returned by \<open>setInterval\<close>; the field
  \<open>scrollInterval\<close> holds a handle or \<open>null\<close>. The browser's set of
  live interval timers is part of the state, since \<open>clearInterval\<close> acts on it.
\<close>

record ScrollController =
  isScrolling :: bool
  scrollInterval :: "int option"
  currentTarget :: "elem option"
  liveIntervals :: "int set"

text \<open>JavaScript truthiness of a value that is a number or \<open>null\<close>:
  \<open>null\<close> and \<open>0\<close> are falsy.\<close>

definition truthy_handle :: "int option \<Rightarrow> bool" where
  "truthy_handle h = (case h of None \<Rightarrow> False | Some n \<Rightarrow> n \<noteq> 0)"

definition clearInterval :: "int \<Rightarrow> ScrollController \<Rightarrow> ScrollController" where
  "clearInterval h s = s\<lparr>liveIntervals := liveIntervals s - {h}\<rparr>"

text \<open>
  \<open>stopScrolling\<close>: the flag is cleared, a truthy interval handle is cleared and
  forgotten, the target is forgotten. Nothing in the \<open>try\<close> block can throw, so the
  \<open>catch\<close> branch has no counterpart here.
\<close>

definition stopScrolling :: "ScrollController \<Rightarrow> ScrollController" where
  "stopScrolling s =
     (let s1 = s\<lparr>isScrolling := False\<rparr>;
          s2 = (if truthy_handle (scrollInterval s1)
                then (clearInterval (the (scrollInterval s1)) s1)\<lparr>scrollInterval := None\<rparr>
                else s1)
      in s2\<lparr>currentTarget := None\<rparr>)"

text \<open>A handle produced by \<open>setInterval\<close> is a positive integer.\<close>

definition valid_handle :: "int option \<Rightarrow> bool" where
  "valid_handle h = (case h of None \<Rightarrow> True | Some n \<Rightarrow> 0 < n)"

subsection \<open>The scroll loop\<close>

text \<open>
  One iteration of \<open>scrollLoop\<close> awaits the date check, the animated scroll, a
  possible load-more attempt and a pause. What the page and the user do during these
  awaits is the environment of the loop; it is given per iteration:
  \<^item> \<open>reached\<close>: the value \<open>hasReachedTargetDate\<close> resolves to (it catches its own
    errors and then resolves to \<open>false\<close>);
  \<^item> \<open>scrollThrows\<close>: \<open>performHumanScroll\<close> rejects (it rethrows its errors);
  \<^item> \<open>scrollTopAfter\<close>: \<open>container.scrollTop\<close> read after the scroll;
  \<^item> \<open>stillScrolling\<close>: the value of \<open>this.isScrolling\<close> when the loop condition
    is evaluated next, \<open>False\<close> when \<open>stopScrolling\<close> ran during one of the awaits.
\<close>

record iteration_env =
  reached :: bool
  scrollThrows :: bool
  scrollTopAfter :: int
  stillScrolling :: bool

datatype loop_exit = ConditionFalse | ReachedTarget | Thrown

text \<open>How the loop ended, the final value of the counter \<open>scrollCount\<close>
  (\<open>iterations\<close>, the iterations that ran to their end), how many times the loop body
  was entered (\<open>bodyEntries\<close>, one more when the last iteration left by \<open>break\<close> or by
  an exception), the number of load-more attempts and the final \<open>lastScrollTop\<close>.\<close>

record loop_result =
  exit_by :: loop_exit
  iterations :: nat
  bodyEntries :: nat
  loadMoreAttempts :: nat
  finalScrollTop :: int

text \<open>
  \<open>scroll_iter env hasTarget maxScrolls flag scrollCount lastScrollTop loads\<close> is the
  \<open>while\<close> loop from the state in which \<open>this.isScrolling = flag\<close>. The parameter
  \<open>hasTarget\<close> is the truthiness of \<open>targetDate\<close>; \<open>maxScrolls\<close> is the integer
  produced by \<open>parseInt(...) || 50\<close> or the default \<open>50\<close>.
\<close>

function scroll_iter ::
  "(nat \<Rightarrow> iteration_env) \<Rightarrow> bool \<Rightarrow> int \<Rightarrow> bool \<Rightarrow> nat \<Rightarrow> int \<Rightarrow> nat \<Rightarrow> loop_result" where
  "scroll_iter env hasTarget maxScrolls flag scrollCount lastScrollTop loads =
     (if flag \<and> int scrollCount < maxScrolls then
        (let e = env scrollCount in
         if hasTarget \<and> reached e then
           \<lparr>exit_by = ReachedTarget, iterations = scrollCount, bodyEntries = Suc scrollCount,
            loadMoreAttempts = loads, finalScrollTop = lastScrollTop\<rparr>
         else if scrollThrows e then
           \<lparr>exit_by = Thrown, iterations = scrollCount, bodyEntries = Suc scrollCount,
            loadMoreAttempts = loads, finalScrollTop = lastScrollTop\<rparr>
         else
           (let currentScrollTop = scrollTopAfter e;
                loads' = (if \<bar>currentScrollTop - lastScrollTop\<bar> < 10 then Suc loads else loads)
            in scroll_iter env hasTarget maxScrolls (stillScrolling e)
                 (Suc scrollCount) currentScrollTop loads'))
      else
        \<lparr>exit_by = ConditionFalse, iterations = scrollCount, bodyEntries = scrollCount,
         loadMoreAttempts = loads, finalScrollTop = lastScrollTop\<rparr>)"
  by pat_completeness auto
termination
  by (relation "measure (\<lambda>(env, hasTarget, maxScrolls, flag, scrollCount, lastScrollTop, loads).
        nat (maxScrolls - int scrollCount))") auto

declare scroll_iter.simps [simp del]

text \<open>\<open>scrollLoop(container, options)\<close>: the counters start at zero and at the
  container's current position.\<close>

definition scrollLoop ::
  "(nat \<Rightarrow> iteration_env) \<Rightarrow> bool \<Rightarrow> int \<Rightarrow> bool \<Rightarrow> int \<Rightarrow> loop_result" where
  "scrollLoop env hasTarget maxScrolls flag scrollTop0 =
     scroll_iter env hasTarget maxScrolls flag 0 scrollTop0 0"

section \<open>Predicates on results and caches\<close>

text \<open>The method names that \<open>detect\<close> writes into the cache.\<close>

definition strategy_methods :: "string set" where
  "strategy_methods = {''instagram'', ''testId'', ''ariaLabel'', ''attribute'',
                       ''class'', ''structure'', ''fallback''}"

text \<open>
  The relation between the fields of a detection result: without elements the
  confidence is zero and the method is \<open>'none'\<close>, or \<open>'error'\<close> when the result
  reports a caught exception; zero confidence means no elements; the method \<open>'none'\<close>
  means no elements and zero confidence.
\<close>

definition result_consistent :: "DetectionResult \<Rightarrow> bool" where
  "result_consistent r =
     ((elements r = [] \<longrightarrow>
         confidence r = 0 \<and> method r = (if error r = None then ''none'' else ''error''))
    \<and> (confidence r = 0 \<longrightarrow> elements r = [])
    \<and> (method r = ''none'' \<longrightarrow> elements r = [] \<and> confidence r = 0))"

text \<open>The same relation on the accumulators of \<open>scan_selectors\<close>.\<close>

definition scan_inv :: "elem list \<times> real \<times> string \<Rightarrow> bool" where
  "scan_inv acc = (case acc of (els, conf, meth) \<Rightarrow>
      (els = [] \<longrightarrow> conf = 0 \<and> meth = ''none'') \<and> (els \<noteq> [] \<longrightarrow> 0 < conf \<and> meth \<noteq> ''none''))"


section \<open>Example pages\<close>

text \<open>An empty \<open>body\<close> (element 0): no selector matches anything.\<close>

definition blank_page :: dom where
  "blank_page =
     \<lparr>querySelectorAll = (\<lambda>sel. Inr []),
      querySelectorAllIn = (\<lambda>e sel. []),
      closest = (\<lambda>e sel. None),
      matches = (\<lambda>e sel. False),
      parentElement = (\<lambda>e. None),
      children = (\<lambda>e. []),
      tagName = (\<lambda>e. ''DIV''),
      className = (\<lambda>e. Some []),
      getAttribute = (\<lambda>e a. None),
      href = (\<lambda>e. None),
      src = (\<lambda>e. None),
      textContent = (\<lambda>e. []),
      rectWidth = (\<lambda>e. 0),
      rectHeight = (\<lambda>e. 0),
      stylePadding = (\<lambda>e. []),
      styleMargin = (\<lambda>e. []),
      styleBackgroundColor = (\<lambda>e. []),
      body = 0\<rparr>"

text \<open>
  \<open><body><div><span>2h</span></div></body>\<close>: a container (element 1) whose only
  child (element 2) has the text \<open>2h\<close>; no element has a test id, an ARIA label or a
  class.
\<close>

definition page_2h :: dom where
  "page_2h = blank_page
     \<lparr>querySelectorAll := (\<lambda>sel.
          if sel = ''span, time, div'' then Inr [1, 2]
          else if sel = ''div'' then Inr [1]
          else if sel = ''span'' \<or> sel = ''div > span'' then Inr [2]
          else Inr []),
      children := (\<lambda>e. if e = 0 then [1] else if e = 1 then [2] else []),
      parentElement := (\<lambda>e. if e = 1 then Some 0 else if e = 2 then Some 1 else None),
      tagName := (\<lambda>e. if e = 0 then ''BODY'' else if e = 1 then ''DIV'' else ''SPAN''),
      textContent := (\<lambda>e. ''2h'')\<rparr>"

text \<open>A strategy table with a test-id strategy only.\<close>

definition testId_only :: selectors where
  "testId_only = no_selectors
     \<lparr>sel_testId := Some ''span[data-testid=\"message-timestamp\"], span[data-testid=\"timestamp\"]''\<rparr>"

text \<open>\<open><body><div data-testid="message-bubble">x</div></body>\<close>.\<close>

definition page_bubble :: dom where
  "page_bubble = blank_page
     \<lparr>querySelectorAll := (\<lambda>sel.
          if sel = ''div[data-testid=\"message-bubble\"], div[role=\"button\"][tabindex=\"0\"]''
          then Inr [1] else Inr []),
      children := (\<lambda>e. if e = 0 then [1] else []),
      parentElement := (\<lambda>e. if e = 1 then Some 0 else None),
      tagName := (\<lambda>e. if e = 0 then ''BODY'' else ''DIV''),
      getAttribute := (\<lambda>e a. if e = 1 \<and> a = ''data-testid'' then Some ''message-bubble'' else None),
      textContent := (\<lambda>e. ''x'')\<rparr>"

text \<open>The cache after the \<open>instagram\<close> strategy found the message containers.\<close>

definition bubble_cache :: selector_cache where
  "bubble_cache = [''messageContainers'' \<mapsto>
      (''div[data-testid=\"message-bubble\"], div[role=\"button\"][tabindex=\"0\"]'', ''instagram'')]"

text \<open>A document that throws on every query.\<close>

definition throwing_page :: dom where
  "throwing_page = blank_page
     \<lparr>querySelectorAll := (\<lambda>sel. Inl (JsError ''Error'' ''document is not accessible''))\<rparr>"

text \<open>
  \<open><body><div><div><img></div></div></body>\<close>: the image (element 3) lies in a
  parent of 10 by 10 pixels (element 2) inside a block of 200 by 100 pixels
  (element 1); no element has an attribute, a class or an inline style.
\<close>

definition page_nested :: dom where
  "page_nested = blank_page
     \<lparr>parentElement := (\<lambda>e. if e = 3 then Some 2 else if e = 2 then Some 1
                             else if e = 1 then Some 0 else None),
      children := (\<lambda>e. if e = 0 then [1] else if e = 1 then [2] else if e = 2 then [3] else []),
      tagName := (\<lambda>e. if e = 0 then ''BODY'' else if e = 3 then ''IMG'' else ''DIV''),
      rectWidth := (\<lambda>e. if e = 1 then 200 else if e = 2 then 10 else if e = 3 then 8 else 800),
      rectHeight := (\<lambda>e. if e = 1 then 100 else if e = 2 then 10 else if e = 3 then 8 else 600)\<rparr>"

text \<open>A reading of the clock and of the random source.\<close>

definition fixed_clock :: clock where
  "fixed_clock = \<lparr>dateNow = 1700000012345, mathRandom36 = ''0.4fzyo82mvyr''\<rparr>"

text \<open>
  \<open><body><div><a href="/reel/Cabc123_xy/">Watch this</a></div></body>\<close> on
  \<open>www.instagram.com\<close>: a message (element 4) with a link to a reel (element 5).
\<close>

definition page_reel :: dom where
  "page_reel = blank_page
     \<lparr>querySelectorAllIn := (\<lambda>e sel. if e = 4 \<and> sel = ''a[href]'' then [5] else []),
      closest := (\<lambda>e sel. if e = 5 \<and> sel = ''a[href*=\"/reel/\"]'' then Some 5 else None),
      parentElement := (\<lambda>e. if e = 5 then Some 4 else if e = 4 then Some 0 else None),
      children := (\<lambda>e. if e = 0 then [4] else if e = 4 then [5] else []),
      tagName := (\<lambda>e. if e = 0 then ''BODY'' else if e = 5 then ''A'' else ''DIV''),
      getAttribute := (\<lambda>e a. if e = 5 \<and> a = ''href'' then Some ''/reel/Cabc123_xy/'' else None),
      href := (\<lambda>e. if e = 5 then Some ''https://www.instagram.com/reel/Cabc123_xy/'' else None),
      textContent := (\<lambda>e. ''Watch this'')\<rparr>"








section \<open>Properties of the scroll controller\<close>

lemma scroll_iter_bound:
  "int scrollCount \<le> max 0 maxScrolls \<Longrightarrow>
   int (iterations (scroll_iter env hasTarget maxScrolls flag scrollCount lastScrollTop loads))
     \<le> max 0 maxScrolls
   \<and> int (bodyEntries (scroll_iter env hasTarget maxScrolls flag scrollCount lastScrollTop loads))
     \<le> max 0 maxScrolls"
proof (induction env hasTarget maxScrolls flag scrollCount lastScrollTop loads
       rule: scroll_iter.induct)
  case (1 env hasTarget maxScrolls flag scrollCount lastScrollTop loads)
  show ?case
  proof (cases "flag \<and> int scrollCount < maxScrolls")
    case False
    then show ?thesis using "1.prems" by (subst (1 2) scroll_iter.simps) auto
  next
    case True
    note enter = True
    show ?thesis
    proof (cases "hasTarget \<and> reached (env scrollCount)")
      case True
      then show ?thesis using enter "1.prems"
        by (subst (1 2) scroll_iter.simps) (simp add: Let_def)
    next
      case False
      note noTarget = False
      show ?thesis
      proof (cases "scrollThrows (env scrollCount)")
        case True
        then show ?thesis using enter noTarget "1.prems"
          by (subst (1 2) scroll_iter.simps) (simp add: Let_def)
      next
        case False
        let ?next = "scroll_iter env hasTarget maxScrolls
                    (stillScrolling (env scrollCount)) (Suc scrollCount)
                    (scrollTopAfter (env scrollCount))
                    (if \<bar>scrollTopAfter (env scrollCount) - lastScrollTop\<bar> < 10
                     then Suc loads else loads)"
        have step: "int (Suc scrollCount) \<le> max 0 maxScrolls" using enter by simp
        have ih: "int (iterations ?next) \<le> max 0 maxScrolls
                  \<and> int (bodyEntries ?next) \<le> max 0 maxScrolls"
          using "1.IH" [OF enter refl noTarget False refl refl step] .
        have unfold: "scroll_iter env hasTarget maxScrolls flag scrollCount lastScrollTop loads
              = ?next"
          using enter noTarget False
          by (subst scroll_iter.simps) (auto simp: Let_def)
        show ?thesis unfolding unfold by (rule ih)
      qed
    qed
  qed
qed

text \<open>
  Claim C8. The scroll loop is a total function of its environment: for every
  behaviour of the page, every target date (also one that is never reached) and
  every integer \<open>maxScrolls\<close> it stops; its counter ends at most at \<open>maxScrolls\<close> and
  its body is entered at most \<open>maxScrolls\<close> times (never when \<open>maxScrolls\<close> is not
  positive).
\<close>

theorem scrollLoop_terminates_within_maxScrolls:
  "int (iterations (scrollLoop env hasTarget maxScrolls flag scrollTop0)) \<le> max 0 maxScrolls
   \<and> int (bodyEntries (scrollLoop env hasTarget maxScrolls flag scrollTop0)) \<le> max 0 maxScrolls"
  unfolding scrollLoop_def by (rule scroll_iter_bound) simp

text \<open>A conversation in which the target date is never reached and the scroll
  position never moves, with \<open>maxScrolls = 3\<close>: the loop ends by its condition after
  three iterations.\<close>

theorem scrollLoop_terminates_within_maxScrolls_witness:
  "scrollLoop
      (\<lambda>i. \<lparr>reached = False, scrollThrows = False, scrollTopAfter = 0, stillScrolling = True\<rparr>)
      True 3 True 0
     = \<lparr>exit_by = ConditionFalse, iterations = 3, bodyEntries = 3, loadMoreAttempts = 3,
        finalScrollTop = 0\<rparr>
   \<and> int (iterations (scrollLoop
      (\<lambda>i. \<lparr>reached = False, scrollThrows = False, scrollTopAfter = 0, stillScrolling = True\<rparr>)
      True 3 True 0)) \<le> max 0 3"
  using scrollLoop_terminates_within_maxScrolls
    [of "\<lambda>i. \<lparr>reached = False, scrollThrows = False, scrollTopAfter = 0, stillScrolling = True\<rparr>"
        True 3 True 0]
  by (simp add: scrollLoop_def scroll_iter.simps Let_def)

text \<open>
  Claim C10. From every controller state whose interval handle is \<open>null\<close> or a
  handle of \<open>setInterval\<close>, one call of \<open>stopScrolling\<close> leaves
  \<open>isScrolling = false\<close>, \<open>scrollInterval = null\<close> and \<open>currentTarget = null\<close>, and a
  second call changes nothing.
\<close>

theorem stopScrolling_resets_and_idempotent:
  "valid_handle (scrollInterval s) \<Longrightarrow>
     isScrolling (stopScrolling s) = False
   \<and> scrollInterval (stopScrolling s) = None
   \<and> currentTarget (stopScrolling s) = None
   \<and> stopScrolling (stopScrolling s) = stopScrolling s"
  by (cases "scrollInterval s")
     (auto simp: stopScrolling_def truthy_handle_def valid_handle_def clearInterval_def Let_def)

theorem stopScrolling_resets_and_idempotent_witness:
  "valid_handle (scrollInterval
       \<lparr>isScrolling = True, scrollInterval = Some 7, currentTarget = Some 3, liveIntervals = {7}\<rparr>)
   \<and> stopScrolling
       \<lparr>isScrolling = True, scrollInterval = Some 7, currentTarget = Some 3, liveIntervals = {7}\<rparr>
     = \<lparr>isScrolling = False, scrollInterval = None, currentTarget = None, liveIntervals = {}\<rparr>
   \<and> stopScrolling (stopScrolling
       \<lparr>isScrolling = True, scrollInterval = Some 7, currentTarget = Some 3, liveIntervals = {7}\<rparr>)
     = \<lparr>isScrolling = False, scrollInterval = None, currentTarget = None, liveIntervals = {}\<rparr>"
  using stopScrolling_resets_and_idempotent
    [of "\<lparr>isScrolling = True, scrollInterval = Some 7, currentTarget = Some 3, liveIntervals = {7}\<rparr>"]
  by (simp add: stopScrolling_def truthy_handle_def valid_handle_def clearInterval_def Let_def)

section \<open>Properties of the classifiers\<close>

subsection \<open>How \<open>detect\<close> returns\<close>

lemma orElse_Return:
  "orElse a b = Return x \<longleftrightarrow> a = Return x \<or> (a = Continue \<and> b = Return x)"
  by (cases a) auto

lemma orElse_Continue:
  "orElse a b = Continue \<longleftrightarrow> a = Continue \<and> b = Continue"
  by (cases a) auto

lemma orElse_Throw:
  "orElse a b = Throw e \<longleftrightarrow> a = Throw e \<or> (a = Continue \<and> b = Throw e)"
  by (cases a) auto

lemma finish_Inr:
  "finish a d = Inr x \<longleftrightarrow> a = Return x \<or> (a = Continue \<and> x = d)"
  by (cases a) auto

lemma strategy_let_Return:
  "strategy_let doc now cache key sel meth conf = Return x \<longleftrightarrow>
     (\<exists>s els. sel = Some s \<and> s \<noteq> [] \<and> querySelectorAll doc s = Inr els \<and> els \<noteq> []
         \<and> x = (detected now els conf meth False, cache(key \<mapsto> (s, meth))))"
  by (cases sel) (auto simp: strategy_let_def truthy_str_def split: sum.splits)

lemma strategy_assign_not_Return:
  "strategy_assign doc now cache key sel meth conf \<noteq> Return x"
  by (auto simp: strategy_assign_def split: sum.splits)

lemma strategy_let_Continue_now:
  "strategy_let doc now cache key sel meth conf = Continue \<Longrightarrow>
   strategy_let doc now' cache' key' sel meth' conf' = Continue"
  by (auto simp: strategy_let_def split: sum.splits if_splits)

lemma strategy_assign_Continue_now:
  "strategy_assign doc now cache key sel meth conf = Continue \<Longrightarrow>
   strategy_assign doc now' cache' key' sel meth' conf' = Continue"
  by (auto simp: strategy_assign_def split: sum.splits if_splits)

lemma search_Return:
  assumes "search doc now cache sels key = Return x"
  shows "\<exists>s els conf meth. querySelectorAll doc s = Inr els \<and> els \<noteq> [] \<and> meth \<in> strategy_methods
        \<and> 0 < conf
        \<and> x = (detected now els conf meth False, cache(key \<mapsto> (s, meth)))"
proof -
  have L: "\<And>sel meth conf. strategy_let doc now cache key sel meth conf = Return x \<Longrightarrow>
            meth \<in> strategy_methods \<Longrightarrow> 0 < conf \<Longrightarrow> ?thesis"
    unfolding strategy_let_Return by blast
  from assms consider
      "strategy_let doc now cache key (sel_instagram sels) ''instagram'' 0.95 = Return x"
    | "strategy_let doc now cache key (sel_testId sels) ''testId'' 0.9 = Return x"
    | "strategy_let doc now cache key (sel_ariaLabel sels) ''ariaLabel'' 0.85 = Return x"
    | "strategy_let doc now cache key (sel_attribute sels) ''attribute'' 0.8 = Return x"
    unfolding search_def orElse_Return by (auto simp: strategy_assign_not_Return)
  then show ?thesis
  proof cases
    case 1 show ?thesis by (rule L [OF 1]) (simp_all add: strategy_methods_def)
  next
    case 2 show ?thesis by (rule L [OF 2]) (simp_all add: strategy_methods_def)
  next
    case 3 show ?thesis by (rule L [OF 3]) (simp_all add: strategy_methods_def)
  next
    case 4 show ?thesis by (rule L [OF 4]) (simp_all add: strategy_methods_def)
  qed
qed

lemma search_Continue_now:
  "search doc now cache sels key = Continue \<Longrightarrow> search doc now' cache' sels key' = Continue"
  unfolding search_def orElse_Continue
  by (auto dest: strategy_let_Continue_now strategy_assign_Continue_now)

lemma cache_step_Return:
  "cache_step doc now cache key = Return x \<longleftrightarrow>
     (\<exists>s meth els. cache key = Some (s, meth) \<and> querySelectorAll doc s = Inr els \<and> els \<noteq> []
        \<and> x = (detected now els 1 meth True, cache))"
  by (auto simp: cache_step_def split: option.splits sum.splits)

lemma cache_step_Continue:
  "cache_step doc now cache key = Continue \<longleftrightarrow>
     (cache key = None \<or> (\<exists>s meth. cache key = Some (s, meth) \<and> querySelectorAll doc s = Inr []))"
  by (auto simp: cache_step_def split: option.splits sum.splits)

lemma detect_Inr:
  "detect doc now cache sels key = Inr x \<longleftrightarrow>
     cache_step doc now cache key = Return x
   \<or> (cache_step doc now cache key = Continue \<and> search doc now cache sels key = Return x)
   \<or> (cache_step doc now cache key = Continue \<and> search doc now cache sels key = Continue
        \<and> x = (none_result now, cache))"
  unfolding detect_def finish_Inr orElse_Return orElse_Continue by blast







subsection \<open>Exceptions\<close>

lemma try_catch_total: "\<exists>r. try_catch attempt handler = Inr r"
  by (cases attempt) (simp_all add: try_catch_def)


text \<open>
  Claim C1. The content-script variant never throws: both of its detections return a
  result for every document. The first variant does throw: on a page where neither
  the \<open>instagram\<close> nor the \<open>attribute\<close> selector matches, \<open>detectMessageContainers\<close>
  reaches the \<open>class\<close> strategy and is rejected with a \<open>ReferenceError\<close>.
\<close>

theorem detect_rejects_at_class_strategy:
  "detectMessageContainers blank_page now Map.empty =
     Inl (JsError ''ReferenceError'' ''elements is not defined'')
   \<and> (\<exists>r. cs_detectMessageContainers doc = Inr r)
   \<and> (\<exists>r. cs_detectTimestampElements doc = Inr r)"
proof (intro conjI)
  show "detectMessageContainers blank_page now Map.empty =
     Inl (JsError ''ReferenceError'' ''elements is not defined'')"
    by (simp add: detectMessageContainers_def detect_def cache_step_def search_def
        messageContainers_selectors_def no_selectors_def strategy_let_def strategy_assign_def
        truthy_str_def blank_page_def)
  show "\<exists>r. cs_detectMessageContainers doc = Inr r"
    unfolding cs_detectMessageContainers_def by (rule try_catch_total)
  show "\<exists>r. cs_detectTimestampElements doc = Inr r"
    unfolding cs_detectTimestampElements_def by (rule try_catch_total)
qed


subsection \<open>Classifying twice\<close>

lemma strategy_methods_not_none:
  "m \<in> strategy_methods \<Longrightarrow> m \<noteq> ''none'' \<and> m \<noteq> ''text-pattern''"
  by (auto simp: strategy_methods_def)

lemma detect_twice:
  assumes cache_ok: "\<forall>s m. cache cacheKey = Some (s, m) \<longrightarrow> m \<in> strategy_methods"
    and first: "detect doc now cache sels cacheKey = Inr (r1, cache1)"
  shows "\<exists>r2. detect doc now' cache1 sels cacheKey = Inr (r2, cache1)
           \<and> elements r2 = elements r1
           \<and> (cached r2 = Some True \<longleftrightarrow> method r1 \<noteq> ''none'')
           \<and> (elements r1 \<noteq> [] \<longrightarrow> method r1 \<in> strategy_methods)
           \<and> (elements r1 = [] \<longrightarrow> r1 = none_result now \<and> r2 = none_result now' \<and> cache1 = cache)
           \<and> (cached r1 = Some True \<longrightarrow> cache1 = cache)
           \<and> (cached r1 \<noteq> Some True \<and> elements r1 \<noteq> [] \<longrightarrow>
                  (\<exists>s. cache1 = cache(cacheKey \<mapsto> (s, method r1))))"
proof -
  from first consider
      (hit) "cache_step doc now cache cacheKey = Return (r1, cache1)"
    | (found) "cache_step doc now cache cacheKey = Continue"
              "search doc now cache sels cacheKey = Return (r1, cache1)"
    | (nomatch) "cache_step doc now cache cacheKey = Continue"
              "search doc now cache sels cacheKey = Continue"
              "(r1, cache1) = (none_result now, cache)"
    unfolding detect_Inr by blast
  then show ?thesis
  proof cases
    case hit
    then obtain s meth els where h: "cache cacheKey = Some (s, meth)"
        "querySelectorAll doc s = Inr els" "els \<noteq> []"
        "r1 = detected now els 1 meth True" "cache1 = cache"
      unfolding cache_step_Return by blast
    have "cache_step doc now' cache1 cacheKey = Return (detected now' els 1 meth True, cache1)"
      using h by (simp add: cache_step_def)
    then have "detect doc now' cache1 sels cacheKey = Inr (detected now' els 1 meth True, cache1)"
      by (simp add: detect_def)
    moreover have "meth \<in> strategy_methods" using cache_ok h(1) by blast
    ultimately show ?thesis
      using h strategy_methods_not_none [of meth] by (simp add: detected_def)
  next
    case found
    then obtain s els conf meth where f: "querySelectorAll doc s = Inr els" "els \<noteq> []"
        "meth \<in> strategy_methods"
        "(r1, cache1) = (detected now els conf meth False, cache(cacheKey \<mapsto> (s, meth)))"
      using search_Return [OF found(2)] by blast
    have "cache_step doc now' cache1 cacheKey = Return (detected now' els 1 meth True, cache1)"
      using f by (simp add: cache_step_def)
    then have "detect doc now' cache1 sels cacheKey = Inr (detected now' els 1 meth True, cache1)"
      by (simp add: detect_def)
    then show ?thesis
      using f strategy_methods_not_none [of meth] by (auto simp: detected_def)
  next
    case nomatch
    have c: "cache_step doc now' cache cacheKey = Continue"
      using nomatch(1) unfolding cache_step_Continue .
    have s: "search doc now' cache sels cacheKey = Continue"
      using search_Continue_now [OF nomatch(2)] .
    have "detect doc now' cache sels cacheKey = Inr (none_result now', cache)"
      by (simp add: detect_def c s)
    then show ?thesis
      using nomatch(3) by (simp add: none_result_def detected_def)
  qed
qed

text \<open>
  Claim C3, as amended. Let every method in the cache be one that \<open>detect\<close> writes.
  A classification that returned is followed, on the same document, by one that
  returns the same elements and leaves the cache as the first one left it. After
  \<open>detect\<close> the second result is cached if and only if the first method was not
  \<open>'none'\<close>. After \<open>detectWithTextPattern\<close> it is cached if and only if the first method
  was neither \<open>'none'\<close> nor \<open>'text-pattern'\<close>: a cache hit, a miss and a text-pattern
  match leave the cache unchanged, and a match of a selector strategy writes the entry
  of the key.
\<close>

theorem repeated_classification:
  assumes cache_ok: "\<forall>s m. cache cacheKey = Some (s, m) \<longrightarrow> m \<in> strategy_methods"
  shows "(detect doc now cache sels cacheKey = Inr (qa, store) \<longrightarrow>
            (\<exists>qb. detect doc now' store sels cacheKey = Inr (qb, store)
               \<and> elements qb = elements qa
               \<and> (cached qb = Some True \<longleftrightarrow> method qa \<noteq> ''none'')))
       \<and> (detectWithTextPattern doc now cache sels cacheKey textPattern = Inr (ra, cache_a) \<longrightarrow>
            (\<exists>rb. detectWithTextPattern doc now' cache_a sels cacheKey textPattern = Inr (rb, cache_a)
               \<and> elements rb = elements ra
               \<and> (cached rb = Some True \<longleftrightarrow> method ra \<noteq> ''none'' \<and> method ra \<noteq> ''text-pattern'')
               \<and> (cached ra = Some True \<or> method ra = ''none'' \<or> method ra = ''text-pattern''
                     \<longrightarrow> cache_a = cache)
               \<and> (cached ra \<noteq> Some True \<and> method ra \<noteq> ''none'' \<and> method ra \<noteq> ''text-pattern''
                     \<longrightarrow> (\<exists>s. cache_a = cache(cacheKey \<mapsto> (s, method ra))))))"
proof (intro conjI impI)
  assume "detect doc now cache sels cacheKey = Inr (qa, store)"
  from detect_twice [OF cache_ok this, of now']
  show "\<exists>qb. detect doc now' store sels cacheKey = Inr (qb, store)
               \<and> elements qb = elements qa
               \<and> (cached qb = Some True \<longleftrightarrow> method qa \<noteq> ''none'')"
    by blast
next
  assume first: "detectWithTextPattern doc now cache sels cacheKey textPattern = Inr (ra, cache_a)"
  then obtain st c' where d: "detect doc now cache sels cacheKey = Inr (st, c')"
    by (auto simp: detectWithTextPattern_def split: sum.splits)
  from detect_twice [OF cache_ok d, of now'] obtain st2 where
      d2: "detect doc now' c' sels cacheKey = Inr (st2, c')"
      and same: "elements st2 = elements st"
      and cached2: "cached st2 = Some True \<longleftrightarrow> method st \<noteq> ''none''"
      and meth: "elements st \<noteq> [] \<longrightarrow> method st \<in> strategy_methods"
      and empty: "elements st = [] \<longrightarrow> st = none_result now \<and> st2 = none_result now' \<and> c' = cache"
      and hit: "cached st = Some True \<longrightarrow> c' = cache"
      and written: "cached st \<noteq> Some True \<and> elements st \<noteq> [] \<longrightarrow>
                  (\<exists>s. c' = cache(cacheKey \<mapsto> (s, method st)))"
    by blast
  show "\<exists>rb. detectWithTextPattern doc now' cache_a sels cacheKey textPattern = Inr (rb, cache_a)
               \<and> elements rb = elements ra
               \<and> (cached rb = Some True \<longleftrightarrow> method ra \<noteq> ''none'' \<and> method ra \<noteq> ''text-pattern'')
               \<and> (cached ra = Some True \<or> method ra = ''none'' \<or> method ra = ''text-pattern''
                     \<longrightarrow> cache_a = cache)
               \<and> (cached ra \<noteq> Some True \<and> method ra \<noteq> ''none'' \<and> method ra \<noteq> ''text-pattern''
                     \<longrightarrow> (\<exists>s. cache_a = cache(cacheKey \<mapsto> (s, method ra))))"
  proof (cases "elements st = []")
    case False
    then have ra: "ra = st" "cache_a = c'"
      using first d by (simp_all add: detectWithTextPattern_def)
    have "detectWithTextPattern doc now' cache_a sels cacheKey textPattern = Inr (st2, cache_a)"
      using d2 same False ra by (simp add: detectWithTextPattern_def)
    then show ?thesis
      using ra same cached2 meth hit written False strategy_methods_not_none [of "method st"]
      by auto
  next
    case True
    then have e: "st = none_result now" "st2 = none_result now'" "c' = cache"
      using empty by simp_all
    obtain allElements where q:
        "querySelectorAll doc (the (or_str (sel_fallback sels) (Some ''span, time, div'')))
           = Inr allElements"
      using first d True by (auto simp: detectWithTextPattern_def split: sum.splits)
    let ?found = "filter (time_like doc textPattern) allElements"
    have ra: "(ra, cache_a) = (if length ?found > 0
                 then (detected now ?found 0.6 ''text-pattern'' False, cache)
                 else (none_result now, cache))"
      using first d True q e by (simp add: detectWithTextPattern_def Let_def split: if_splits)
    have c1: "cache_a = cache" using ra by (simp split: if_splits)
    have "detectWithTextPattern doc now' cache_a sels cacheKey textPattern =
            Inr (if length ?found > 0 then detected now' ?found 0.6 ''text-pattern'' False
                 else none_result now', cache_a)"
      using d2 e q c1 by (simp add: detectWithTextPattern_def Let_def none_result_def detected_def)
    then show ?thesis
      using ra c1 by (auto simp: none_result_def detected_def split: if_splits)
  qed
qed

lemma time_like_2h: "time_like page_2h (regex_test True timestamp_pattern) e"
  by (simp add: time_like_def page_2h_def blank_page_def trim_def is_space_def Let_def)
     code_simp

lemma detect_2h:
  "detect page_2h now Map.empty testId_only ''timestampElements'' = Inr (none_result now, Map.empty)"
  by (simp add: detect_def cache_step_def search_def testId_only_def no_selectors_def
        strategy_let_def strategy_assign_def truthy_str_def page_2h_def blank_page_def)

lemma fallback_2h:
  "querySelectorAll page_2h (the (or_str (sel_fallback testId_only) (Some ''span, time, div'')))
     = Inr [1, 2]"
  by (simp add: or_str_def truthy_str_def testId_only_def no_selectors_def page_2h_def
        blank_page_def)

lemma detectWithTextPattern_2h:
  "detectWithTextPattern page_2h now Map.empty testId_only ''timestampElements''
         (regex_test True timestamp_pattern) =
        Inr (\<lparr>elements = [1, 2], confidence = 0.6, method = ''text-pattern'', cached = Some False,
              timestamp = Some now, selector = None, error = None\<rparr>, Map.empty)"
  by (simp add: detectWithTextPattern_def detect_2h fallback_2h time_like_2h none_result_def
        detected_def)

text \<open>The claim as stated fails on the page with the text \<open>2h\<close>: the first call
  succeeds with method \<open>'text-pattern'\<close>, and the second call is not cached.\<close>

theorem repeated_classification_counterexample:
  "detectWithTextPattern page_2h 1000 Map.empty testId_only ''timestampElements''
         (regex_test True timestamp_pattern) =
        Inr (\<lparr>elements = [1, 2], confidence = 0.6, method = ''text-pattern'', cached = Some False,
              timestamp = Some 1000, selector = None, error = None\<rparr>, Map.empty)
   \<and> detectWithTextPattern page_2h 2000 Map.empty testId_only ''timestampElements''
         (regex_test True timestamp_pattern) =
        Inr (\<lparr>elements = [1, 2], confidence = 0.6, method = ''text-pattern'', cached = Some False,
              timestamp = Some 2000, selector = None, error = None\<rparr>, Map.empty)
   \<and> ''text-pattern'' \<noteq> ''none''"
  by (simp add: detectWithTextPattern_2h)

lemma detect_bubble:
  "detect page_bubble now Map.empty messageContainers_selectors ''messageContainers'' =
     Inr (\<lparr>elements = [1], confidence = 0.95, method = ''instagram'', cached = Some False,
           timestamp = Some now, selector = None, error = None\<rparr>, bubble_cache)"
  by (simp add: detect_def cache_step_def search_def messageContainers_selectors_def
        no_selectors_def strategy_let_def truthy_str_def page_bubble_def blank_page_def
        detected_def bubble_cache_def)

lemma detect_bubble_cached:
  "detect page_bubble now bubble_cache messageContainers_selectors ''messageContainers'' =
     Inr (\<lparr>elements = [1], confidence = 1, method = ''instagram'', cached = Some True,
           timestamp = Some now, selector = None, error = None\<rparr>, bubble_cache)"
  by (simp add: detect_def cache_step_def page_bubble_def blank_page_def
        detected_def bubble_cache_def)

theorem repeated_classification_witness:
  "bubble_cache ''messageContainers'' =
      Some (''div[data-testid=\"message-bubble\"], div[role=\"button\"][tabindex=\"0\"]'', ''instagram'')
   \<and> ''instagram'' \<in> strategy_methods
   \<and> (Map.empty :: selector_cache) ''messageContainers'' = None
   \<and> detect page_bubble 1000 Map.empty messageContainers_selectors ''messageContainers'' =
        Inr (\<lparr>elements = [1], confidence = 0.95, method = ''instagram'', cached = Some False,
              timestamp = Some 1000, selector = None, error = None\<rparr>, bubble_cache)
   \<and> detect page_bubble 2000 bubble_cache messageContainers_selectors ''messageContainers'' =
        Inr (\<lparr>elements = [1], confidence = 1, method = ''instagram'', cached = Some True,
              timestamp = Some 2000, selector = None, error = None\<rparr>, bubble_cache)
   \<and> detect page_bubble 3000 bubble_cache messageContainers_selectors ''messageContainers'' =
        Inr (\<lparr>elements = [1], confidence = 1, method = ''instagram'', cached = Some True,
              timestamp = Some 3000, selector = None, error = None\<rparr>, bubble_cache)
   \<and> detectWithTextPattern page_bubble 1000 Map.empty messageContainers_selectors
          ''messageContainers'' (regex_test True timestamp_pattern) =
        Inr (\<lparr>elements = [1], confidence = 0.95, method = ''instagram'', cached = Some False,
              timestamp = Some 1000, selector = None, error = None\<rparr>, bubble_cache)
   \<and> detectWithTextPattern page_bubble 2000 bubble_cache messageContainers_selectors
          ''messageContainers'' (regex_test True timestamp_pattern) =
        Inr (\<lparr>elements = [1], confidence = 1, method = ''instagram'', cached = Some True,
              timestamp = Some 2000, selector = None, error = None\<rparr>, bubble_cache)"
proof -
  have ok: "\<forall>s m. (Map.empty :: selector_cache) ''messageContainers'' = Some (s, m)
              \<longrightarrow> m \<in> strategy_methods"
    by simp
  have ok': "\<forall>s m. bubble_cache ''messageContainers'' = Some (s, m) \<longrightarrow> m \<in> strategy_methods"
    by (simp add: bubble_cache_def strategy_methods_def)
  have w: "detectWithTextPattern page_bubble 1000 Map.empty messageContainers_selectors
          ''messageContainers'' (regex_test True timestamp_pattern) =
        Inr (\<lparr>elements = [1], confidence = 0.95, method = ''instagram'', cached = Some False,
              timestamp = Some 1000, selector = None, error = None\<rparr>, bubble_cache)"
    by (simp add: detectWithTextPattern_def detect_bubble)
  show ?thesis
    using repeated_classification
            [where cache = Map.empty and cacheKey = "''messageContainers''"
               and doc = page_bubble and now = 1000 and now' = 2000
               and sels = messageContainers_selectors
               and textPattern = "regex_test True timestamp_pattern"
               and qa = "\<lparr>elements = [1], confidence = 0.95, method = ''instagram'',
                          cached = Some False, timestamp = Some 1000, selector = None,
                          error = None\<rparr>"
               and store = bubble_cache
               and ra = "\<lparr>elements = [1], confidence = 0.95, method = ''instagram'',
                          cached = Some False, timestamp = Some 1000, selector = None,
                          error = None\<rparr>"
               and cache_a = bubble_cache, OF ok]
          repeated_classification
            [where cache = bubble_cache and cacheKey = "''messageContainers''"
               and doc = page_bubble and now = 2000 and now' = 3000
               and sels = messageContainers_selectors
               and textPattern = "regex_test True timestamp_pattern"
               and qa = "\<lparr>elements = [1], confidence = 1, method = ''instagram'',
                          cached = Some True, timestamp = Some 2000, selector = None,
                          error = None\<rparr>"
               and store = bubble_cache
               and ra = "\<lparr>elements = [1], confidence = 1, method = ''instagram'',
                          cached = Some True, timestamp = Some 2000, selector = None,
                          error = None\<rparr>"
               and cache_a = bubble_cache, OF ok']
          w detect_bubble [of 1000] detect_bubble_cached [of 2000] detect_bubble_cached [of 3000]
    by (simp add: detectWithTextPattern_def bubble_cache_def strategy_methods_def)
qed

subsection \<open>The fields of a result\<close>

lemma scan_selectors_inv:
  assumes tier_ok: "\<And>i n. 0 < n \<Longrightarrow> 0 < fst (tier i n) \<and> snd (tier i n) \<noteq> ''none''"
  shows "scan_selectors doc tier i table acc = Inr acc' \<Longrightarrow> scan_inv acc \<Longrightarrow> scan_inv acc'"
proof (induction table arbitrary: i acc)
  case Nil
  then show ?case by simp
next
  case (Cons sel rest)
  obtain els conf meth where acc: "acc = (els, conf, meth)" by (cases acc)
  from Cons.prems(1) obtain found where q: "querySelectorAll doc sel = Inr found"
    unfolding acc by (auto split: sum.splits)
  show ?case
  proof (cases "length found > 0")
    case True
    have step: "scan_selectors doc tier (Suc i) rest
                 (els @ found, max conf (fst (tier i (length found))), snd (tier i (length found)))
                = Inr acc'"
      using Cons.prems(1) q True unfolding acc by simp
    have "scan_inv (els @ found, max conf (fst (tier i (length found))), snd (tier i (length found)))"
      using tier_ok [OF True, of i] True Cons.prems(2) unfolding acc scan_inv_def
      by (auto simp: max_def)
    with Cons.IH [OF step] show ?thesis .
  next
    case False
    have step: "scan_selectors doc tier (Suc i) rest (els, conf, meth) = Inr acc'"
      using Cons.prems(1) q False unfolding acc by simp
    show ?thesis using Cons.IH [OF step] Cons.prems(2) unfolding acc .
  qed
qed

lemma messageContainers_tier_ok:
  "0 < n \<Longrightarrow> 0 < fst (messageContainers_tier i n) \<and> snd (messageContainers_tier i n) \<noteq> ''none''"
  by (simp add: messageContainers_tier_def min_def)

lemma timestampElements_tier_ok:
  "0 < n \<Longrightarrow> 0 < fst (timestampElements_tier i n) \<and> snd (timestampElements_tier i n) \<noteq> ''none''"
  by (simp add: timestampElements_tier_def min_def)

lemma cs_result_consistent:
  "scan_inv (els, conf, meth) \<Longrightarrow> result_consistent (cs_result els (ensure_minimum els conf) meth table)"
  by (auto simp: scan_inv_def result_consistent_def cs_result_def ensure_minimum_def)

lemma cs_error_result_consistent: "result_consistent (cs_error_result e)"
  by (simp add: result_consistent_def cs_error_result_def)

lemma cs_detectMessageContainers_consistent:
  assumes "cs_detectMessageContainers doc = Inr r"
  shows "result_consistent r"
proof (cases "scan_selectors doc messageContainers_tier 0 cs_messageContainers ([], 0, ''none'')")
  case (Inl e)
  then have "r = cs_error_result e"
    using assms by (simp add: cs_detectMessageContainers_def try_catch_def)
  then show ?thesis by (simp add: cs_error_result_consistent)
next
  case (Inr acc)
  obtain els conf meth where acc: "acc = (els, conf, meth)" by (cases acc)
  have "scan_inv acc"
    using scan_selectors_inv [OF messageContainers_tier_ok Inr] by (simp add: scan_inv_def)
  moreover have "r = cs_result els (ensure_minimum els conf) meth cs_messageContainers"
    using assms Inr acc by (simp add: cs_detectMessageContainers_def try_catch_def)
  ultimately show ?thesis using cs_result_consistent acc by simp
qed

lemma cs_detectTimestampElements_consistent:
  assumes "cs_detectTimestampElements doc = Inr r"
  shows "result_consistent r"
proof (cases "scan_selectors doc timestampElements_tier 0 cs_timestampElements ([], 0, ''none'')")
  case (Inl e)
  then have "r = cs_error_result e"
    using assms by (simp add: cs_detectTimestampElements_def try_catch_def)
  then show ?thesis by (simp add: cs_error_result_consistent)
next
  case (Inr acc)
  obtain els conf meth where acc: "acc = (els, conf, meth)" by (cases acc)
  have inv: "scan_inv (els, conf, meth)"
    using scan_selectors_inv [OF timestampElements_tier_ok Inr] acc by (simp add: scan_inv_def)
  show ?thesis
  proof (cases "length els = 0")
    case False
    then have "r = cs_result els (ensure_minimum els conf) meth cs_timestampElements"
      using assms Inr acc by (simp add: cs_detectTimestampElements_def try_catch_def)
    then show ?thesis using cs_result_consistent [OF inv] by simp
  next
    case True
    show ?thesis
    proof (cases "detectTimestampsByTextPattern doc")
      case (Inl e)
      then have "r = cs_error_result e"
        using assms Inr acc True by (simp add: cs_detectTimestampElements_def try_catch_def)
      then show ?thesis by (simp add: cs_error_result_consistent)
    next
      case (Inr timeElements)
      note t = Inr
      show ?thesis
      proof (cases "length timeElements > 0")
        case False
        then have "r = cs_result els (ensure_minimum els conf) meth cs_timestampElements"
          using assms \<open>scan_selectors doc timestampElements_tier 0 cs_timestampElements
                 ([], 0, ''none'') = Inr acc\<close> acc True t
          by (simp add: cs_detectTimestampElements_def try_catch_def)
        then show ?thesis using cs_result_consistent [OF inv] by simp
      next
        case gt: True
        then have "r = cs_result (els @ timeElements) (ensure_minimum (els @ timeElements) 0.6)
                         ''text-pattern'' cs_timestampElements"
          using assms \<open>scan_selectors doc timestampElements_tier 0 cs_timestampElements
                 ([], 0, ''none'') = Inr acc\<close> acc True t
          by (simp add: cs_detectTimestampElements_def try_catch_def)
        moreover have "scan_inv (els @ timeElements, 0.6, ''text-pattern'')"
          using gt by (simp add: scan_inv_def)
        ultimately show ?thesis using cs_result_consistent by simp
      qed
    qed
  qed
qed

lemma detect_consistent:
  assumes cache_ok: "\<forall>s m. cache cacheKey = Some (s, m) \<longrightarrow> m \<noteq> ''none''"
    and "detect doc now cache sels cacheKey = Inr (r, cache')"
  shows "result_consistent r"
proof -
  from assms(2) consider
      (hit) "cache_step doc now cache cacheKey = Return (r, cache')"
    | (found) "search doc now cache sels cacheKey = Return (r, cache')"
    | (nomatch) "(r, cache') = (none_result now, cache)"
    unfolding detect_Inr by blast
  then show ?thesis
  proof cases
    case hit
    then show ?thesis
      using cache_ok unfolding cache_step_Return
      by (auto simp: result_consistent_def detected_def)
  next
    case found
    from search_Return [OF found] show ?thesis
      by (auto simp: result_consistent_def detected_def dest: strategy_methods_not_none)
  next
    case nomatch
    then show ?thesis by (simp add: result_consistent_def none_result_def detected_def)
  qed
qed

lemma detectWithTextPattern_consistent:
  assumes cache_ok: "\<forall>s m. cache cacheKey = Some (s, m) \<longrightarrow> m \<noteq> ''none''"
    and "detectWithTextPattern doc now cache sels cacheKey textPattern = Inr (r, cache')"
  shows "result_consistent r"
proof -
  from assms(2) obtain st c' where d: "detect doc now cache sels cacheKey = Inr (st, c')"
    by (auto simp: detectWithTextPattern_def split: sum.splits)
  show ?thesis
  proof (cases "length (elements st) > 0")
    case True
    then have "r = st" using assms(2) d by (simp add: detectWithTextPattern_def)
    then show ?thesis using detect_consistent [OF cache_ok d] by simp
  next
    case False
    then have "method r = ''none'' \<and> elements r = [] \<and> confidence r = 0 \<and> error r = None
             \<or> method r = ''text-pattern'' \<and> elements r \<noteq> [] \<and> confidence r = 0.6"
      using assms(2) d
      by (auto simp: detectWithTextPattern_def Let_def none_result_def detected_def
               split: sum.splits if_splits)
    then show ?thesis
      by (auto simp: result_consistent_def)
  qed
qed

text \<open>
  Claim C4, as amended. Let no method in the cache under the key be \<open>'none'\<close>. Every
  result returned by \<open>detect\<close>, by \<open>detectWithTextPattern\<close> and by the two detections of
  the content-script variant satisfies \<open>result_consistent\<close>: without elements the
  confidence is 0 and the method is \<open>'none'\<close>, or \<open>'error'\<close> on the exception path; with
  elements the confidence is not 0; with method \<open>'none'\<close> there are no elements and the
  confidence is 0.
\<close>

theorem results_consistent:
  assumes "\<forall>s m. cache cacheKey = Some (s, m) \<longrightarrow> m \<noteq> ''none''"
  shows "(detect doc now cache sels cacheKey = Inr (ra, ca) \<longrightarrow> result_consistent ra)
       \<and> (detectWithTextPattern doc now cache sels cacheKey textPattern = Inr (rb, cb)
            \<longrightarrow> result_consistent rb)
       \<and> (cs_detectMessageContainers doc = Inr rc \<longrightarrow> result_consistent rc)
       \<and> (cs_detectTimestampElements doc = Inr rd \<longrightarrow> result_consistent rd)"
proof (intro conjI impI)
  assume "detect doc now cache sels cacheKey = Inr (ra, ca)"
  with assms show "result_consistent ra" by (rule detect_consistent)
next
  assume "detectWithTextPattern doc now cache sels cacheKey textPattern = Inr (rb, cb)"
  with assms show "result_consistent rb" by (rule detectWithTextPattern_consistent)
next
  assume "cs_detectMessageContainers doc = Inr rc"
  then show "result_consistent rc" by (rule cs_detectMessageContainers_consistent)
next
  assume "cs_detectTimestampElements doc = Inr rd"
  then show "result_consistent rd" by (rule cs_detectTimestampElements_consistent)
qed

text \<open>The claim as stated fails on the exception path of the content-script
  variant: the result has no elements and the method \<open>'error'\<close>.\<close>

theorem results_consistent_counterexample:
  "cs_detectMessageContainers throwing_page =
     Inr \<lparr>elements = [], confidence = 0, method = ''error'', cached = None, timestamp = None,
          selector = None, error = Some ''document is not accessible''\<rparr>
   \<and> ''error'' \<noteq> ''none''"
  by (simp add: cs_detectMessageContainers_def try_catch_def cs_messageContainers_def
      throwing_page_def blank_page_def cs_error_result_def)

theorem results_consistent_witness:
  "bubble_cache ''messageContainers'' =
      Some (''div[data-testid=\"message-bubble\"], div[role=\"button\"][tabindex=\"0\"]'', ''instagram'')
   \<and> ''instagram'' \<noteq> ''none''
   \<and> detect page_bubble 1000 bubble_cache messageContainers_selectors ''messageContainers'' =
        Inr (\<lparr>elements = [1], confidence = 1, method = ''instagram'', cached = Some True,
              timestamp = Some 1000, selector = None, error = None\<rparr>, bubble_cache)
   \<and> result_consistent
        \<lparr>elements = [1], confidence = 1, method = ''instagram'', cached = Some True,
         timestamp = Some 1000, selector = None, error = None\<rparr>
   \<and> cs_detectMessageContainers blank_page =
        Inr (cs_result [] 0 ''none'' cs_messageContainers)
   \<and> result_consistent (cs_result [] 0 ''none'' cs_messageContainers)
   \<and> cs_detectMessageContainers throwing_page =
        Inr (cs_error_result (JsError ''Error'' ''document is not accessible''))
   \<and> result_consistent (cs_error_result (JsError ''Error'' ''document is not accessible''))"
proof -
  have ok: "\<forall>s m. bubble_cache ''messageContainers'' = Some (s, m) \<longrightarrow> m \<noteq> ''none''"
    by (simp add: bubble_cache_def)
  have cs: "cs_detectMessageContainers blank_page =
        Inr (cs_result [] 0 ''none'' cs_messageContainers)"
    by (simp add: cs_detectMessageContainers_def try_catch_def cs_messageContainers_def
        blank_page_def ensure_minimum_def)
  have ex: "cs_detectMessageContainers throwing_page =
        Inr (cs_error_result (JsError ''Error'' ''document is not accessible''))"
    by (simp add: cs_detectMessageContainers_def try_catch_def cs_messageContainers_def
        throwing_page_def blank_page_def)
  show ?thesis
    using results_consistent
            [where cache = bubble_cache and cacheKey = "''messageContainers''"
               and doc = page_bubble and now = 1000 and sels = messageContainers_selectors
               and ra = "\<lparr>elements = [1], confidence = 1, method = ''instagram'',
                          cached = Some True, timestamp = Some 1000, selector = None,
                          error = None\<rparr>"
               and ca = bubble_cache, OF ok]
          results_consistent
            [where cache = bubble_cache and cacheKey = "''messageContainers''"
               and doc = blank_page
               and rc = "cs_result [] 0 ''none'' cs_messageContainers", OF ok]
          results_consistent
            [where cache = bubble_cache and cacheKey = "''messageContainers''"
               and doc = throwing_page
               and rc = "cs_error_result (JsError ''Error'' ''document is not accessible'')", OF ok]
          detect_bubble_cached [of 1000] cs ex
    by (simp add: bubble_cache_def)
qed

subsection \<open>The text scan of the content-script variant\<close>





subsection \<open>The text-pattern fallback\<close>





























section \<open>Properties of the container resolver\<close>

lemma ancestor_at_add:
  "ancestor_at d (j + k) e = (case ancestor_at d j e of None \<Rightarrow> None | Some a \<Rightarrow> ancestor_at d k a)"
  by (induction j arbitrary: e) (auto split: option.splits)

lemma ancestor_at_Suc_end:
  "ancestor_at d (Suc k) e = (case ancestor_at d k e of None \<Rightarrow> None | Some a \<Rightarrow> parentElement d a)"
  using ancestor_at_add [of d k 1 e] by (auto split: option.splits)

lemma forest_no_strict_descendant:
  assumes "forest d" and "ancestor_at d k e = Some r"
  shows "\<not> strict_descendant d r e"
proof
  assume "strict_descendant d r e"
  then obtain j where j: "ancestor_at d (Suc j) r = Some e"
    by (auto simp: strict_descendant_def)
  have "ancestor_at d (Suc j + k) r = Some r"
    using j assms(2) by (simp only: ancestor_at_add) simp
  then have "ancestor_at d (Suc (j + k)) r = Some r" by simp
  with assms(1) show False unfolding forest_def by blast
qed

lemma walkUp_Return:
  "walkUp d (Some c) depth = Return r \<Longrightarrow> \<exists>j. depth + j < 10 \<and> ancestor_at d j c = Some r"
proof (induction d "Some c" depth arbitrary: c rule: walkUp.induct)
  case (1 d depth)
  from "1.prems" have enter: "c \<noteq> body d \<and> depth < 10"
    by (subst (asm) walkUp.simps) (auto split: if_splits)
  show ?case
  proof (cases "list_ex (matches d c) containerSelectors")
    case True
    then have "r = c" using "1.prems" enter by (subst (asm) walkUp.simps) auto
    then show ?thesis using enter by (intro exI [of _ 0]) simp
  next
    case False
    note nosel = False
    show ?thesis
    proof (cases "messageLikeAttributes d c")
      case (Inl e)
      then show ?thesis using "1.prems" enter nosel by (subst (asm) walkUp.simps) auto
    next
      case (Inr b)
      show ?thesis
      proof (cases b)
        case True
        then have "r = c" using "1.prems" enter nosel Inr by (subst (asm) walkUp.simps) auto
        then show ?thesis using enter by (intro exI [of _ 0]) simp
      next
        case False
        then have rec: "walkUp d (parentElement d c) (Suc depth) = Return r"
          using "1.prems" enter nosel Inr by (subst (asm) walkUp.simps) auto
        then obtain p where p: "parentElement d c = Some p"
          by (cases "parentElement d c") (auto simp: walkUp.simps)
        have bF: "b = False" using False by simp
        from "1.hyps" [OF refl enter nosel Inr bF p] rec p
        obtain j where "Suc depth + j < 10" "ancestor_at d j p = Some r" by auto
        then show ?thesis using p by (intro exI [of _ "Suc j"]) simp
      qed
    qed
  qed
qed


lemma rt_walkUp_Return:
  "rt_walkUp d (Some c) depth = Return r \<Longrightarrow>
     \<exists>j. 0 < depth + j \<and> depth + j < 8 \<and> ancestor_at d j c = Some r"
proof (induction d "Some c" depth arbitrary: c rule: rt_walkUp.induct)
  case (1 d depth)
  from "1.prems" have enter: "c \<noteq> body d \<and> depth < 8"
    by (subst (asm) rt_walkUp.simps) (auto split: if_splits)
  from "1.prems" enter obtain cls where cls: "className d c = Some cls"
    by (subst (asm) rt_walkUp.simps) (auto split: option.splits)
  show ?case
  proof (cases "depth > 0 \<and> list_ex (matches d c) rt_containerSelectors \<and> containerSized d c")
    case True
    then have "r = c" using "1.prems" enter cls by (subst (asm) rt_walkUp.simps) auto
    then show ?thesis using enter True by (intro exI [of _ 0]) simp
  next
    case False
    note nosel = False
    show ?thesis
    proof (cases "depth > 0 \<and> messageCharacteristics d c cls \<and> containerSized d c")
      case True
      then have "r = c" using "1.prems" enter cls nosel by (subst (asm) rt_walkUp.simps) auto
      then show ?thesis using enter True by (intro exI [of _ 0]) simp
    next
      case False
      then have rec: "rt_walkUp d (parentElement d c) (Suc depth) = Return r"
        using "1.prems" enter cls nosel by (subst (asm) rt_walkUp.simps) auto
      then obtain p where p: "parentElement d c = Some p"
        by (cases "parentElement d c") (auto simp: rt_walkUp.simps)
      from "1.hyps" [OF refl enter cls nosel False p] rec p
      obtain j where "Suc depth + j < 8" "ancestor_at d j p = Some r" by auto
      then show ?thesis using p by (intro exI [of _ "Suc j"]) simp
    qed
  qed
qed

lemma chain_None: "chain d n None = []"
  by (cases n) simp_all

lemma rt_fallback_find:
  "rt_fallback d x fallbackDepth =
     List.find (messageSized d) (takeWhile (\<lambda>y. y \<noteq> body d) (chain d (3 - fallbackDepth) x))"
proof (induction d x fallbackDepth rule: rt_fallback.induct)
  case (1 d x fallbackDepth)
  show ?case
  proof (cases x)
    case None
    then show ?thesis by (subst rt_fallback.simps) (simp add: chain_None)
  next
    case (Some f)
    show ?thesis
    proof (cases "f \<noteq> body d \<and> fallbackDepth < 3")
      case False
      then show ?thesis using Some
        by (subst rt_fallback.simps) (cases "3 - fallbackDepth", auto)
    next
      case True
      then have n: "3 - fallbackDepth = Suc (3 - Suc fallbackDepth)" by arith
      show ?thesis
      proof (cases "messageSized d f")
        case sized: True
        then show ?thesis using Some True
          by (subst rt_fallback.simps) (simp add: n del: diff_Suc_Suc)
      next
        case False
        from "1.IH" [OF Some True False]
        show ?thesis using Some True False
          by (subst rt_fallback.simps) (simp add: n del: diff_Suc_Suc)
      qed
    qed
  qed
qed

lemma chain_ancestor:
  "x \<in> set (chain d n (Some p)) \<Longrightarrow> \<exists>j<n. ancestor_at d j p = Some x"
proof (induction n arbitrary: p)
  case 0
  then show ?case by simp
next
  case (Suc n)
  show ?case
  proof (cases "x = p")
    case True
    then show ?thesis by (intro exI [of _ 0]) simp
  next
    case False
    then obtain q where q: "parentElement d p = Some q" "x \<in> set (chain d n (Some q))"
      using Suc.prems by (cases "parentElement d p") (auto simp: chain_None)
    from Suc.IH [OF q(2)] obtain j where "j < n" "ancestor_at d j q = Some x" by blast
    then show ?thesis using q(1) by (intro exI [of _ "Suc j"]) simp
  qed
qed

lemma find_in_takeWhile:
  "List.find P (takeWhile Q xs) = Some r \<Longrightarrow> r \<in> set xs"
  by (auto simp: find_Some_iff dest: set_takeWhileD nth_mem)

lemma findMessageContainer_ancestor_aux:
  assumes "findMessageContainer d (Some e) = Some r"
  shows "\<exists>k. k < 10 \<and> ancestor_at d k e = Some r"
proof (cases "walkUp d (Some e) 0")
  case (Return c)
  then have "c = r" using assms by (simp add: findMessageContainer_def)
  with walkUp_Return [of d e 0 r] Return show ?thesis by auto
next
  case (Throw x)
  then show ?thesis using assms by (simp add: findMessageContainer_def)
next
  case Continue
  then have "parentDiv d e = Some r" using assms by (simp add: findMessageContainer_def)
  then have "parentElement d e = Some r"
    by (auto simp: parentDiv_def split: option.splits if_splits)
  then show ?thesis by (intro exI [of _ 1]) simp
qed

lemma rt_findMessageContainer_ancestor_aux:
  assumes "rt_findMessageContainer d (Some e) = Some r"
  shows "\<exists>k. 0 < k \<and> k < 8 \<and> ancestor_at d k e = Some r"
proof -
  from assms obtain p where p: "parentElement d e = Some p"
    by (cases "parentElement d e") (auto simp: rt_findMessageContainer_def)
  show ?thesis
  proof (cases "rt_walkUp d (Some e) 0")
    case (Return c)
    then have "c = r" using assms p by (simp add: rt_findMessageContainer_def)
    with rt_walkUp_Return [of d e 0 r] Return show ?thesis by auto
  next
    case (Throw x)
    then show ?thesis using assms p by (simp add: rt_findMessageContainer_def)
  next
    case Continue
    then have "rt_fallback d (Some p) 0 = Some r"
      using assms p by (simp add: rt_findMessageContainer_def)
    then have "r \<in> set (chain d 3 (Some p))"
      unfolding rt_fallback_find by (auto dest: find_in_takeWhile)
    from chain_ancestor [OF this] obtain j where "j < 3" "ancestor_at d j p = Some r" by blast
    then show ?thesis using p by (intro exI [of _ "Suc j"]) simp
  qed
qed

text \<open>
  Claim C7, as amended. Both variants of \<open>findMessageContainer\<close> return \<open>null\<close> or an
  element on the chain of parents of the input: the input or one of its first nine
  ancestors in content-scripts/content.js, one of the first seven proper ancestors in
  the reel tracker. In a forest this element is never a strict descendant of the input.
  When the walk ends without a match, content-scripts/content.js returns the parent if
  its tag is \<open>DIV\<close>, whatever its size, and \<open>null\<close> otherwise; the reel tracker
  returns the nearest of the first three proper ancestors below \<open>body\<close> whose box is
  larger than 100 by 40 pixels, and \<open>null\<close> if there is none.
\<close>

theorem findMessageContainer_ancestor:
  "(findMessageContainer d (Some e) = None
      \<or> (\<exists>k. k < 10 \<and> ancestor_at d k e = findMessageContainer d (Some e)))
   \<and> (rt_findMessageContainer d (Some e) = None
      \<or> (\<exists>k. 0 < k \<and> k < 8 \<and> ancestor_at d k e = rt_findMessageContainer d (Some e)))
   \<and> (forest d \<longrightarrow>
        (\<forall>r. findMessageContainer d (Some e) = Some r \<or> rt_findMessageContainer d (Some e) = Some r
              \<longrightarrow> \<not> strict_descendant d r e))
   \<and> (walkUp d (Some e) 0 = Continue \<longrightarrow>
        findMessageContainer d (Some e) =
          (case parentElement d e of
             None \<Rightarrow> None
           | Some p \<Rightarrow> if tagName d p = ''DIV'' then Some p else None))
   \<and> (rt_walkUp d (Some e) 0 = Continue \<longrightarrow>
        rt_findMessageContainer d (Some e) =
          List.find (messageSized d)
            (takeWhile (\<lambda>y. y \<noteq> body d) (chain d 3 (parentElement d e))))"
proof (intro conjI impI allI)
  show "findMessageContainer d (Some e) = None
      \<or> (\<exists>k. k < 10 \<and> ancestor_at d k e = findMessageContainer d (Some e))"
    using findMessageContainer_ancestor_aux [of d e]
    by (cases "findMessageContainer d (Some e)") auto
  show "rt_findMessageContainer d (Some e) = None
      \<or> (\<exists>k. 0 < k \<and> k < 8 \<and> ancestor_at d k e = rt_findMessageContainer d (Some e))"
    using rt_findMessageContainer_ancestor_aux [of d e]
    by (cases "rt_findMessageContainer d (Some e)") auto
next
  fix r
  assume f: "forest d"
    and "findMessageContainer d (Some e) = Some r \<or> rt_findMessageContainer d (Some e) = Some r"
  then obtain k where "ancestor_at d k e = Some r"
    using findMessageContainer_ancestor_aux [of d e r]
          rt_findMessageContainer_ancestor_aux [of d e r] by blast
  with f show "\<not> strict_descendant d r e" by (rule forest_no_strict_descendant)
next
  assume "walkUp d (Some e) 0 = Continue"
  then show "findMessageContainer d (Some e) =
          (case parentElement d e of
             None \<Rightarrow> None
           | Some p \<Rightarrow> if tagName d p = ''DIV'' then Some p else None)"
    by (simp add: findMessageContainer_def parentDiv_def)
next
  assume "rt_walkUp d (Some e) 0 = Continue"
  then show "rt_findMessageContainer d (Some e) =
          List.find (messageSized d)
            (takeWhile (\<lambda>y. y \<noteq> body d) (chain d 3 (parentElement d e)))"
    by (cases "parentElement d e")
       (simp_all add: rt_findMessageContainer_def rt_fallback_find chain_None)
qed

lemma forest_by_order:
  assumes "\<And>e p. parentElement d e = Some p \<Longrightarrow> p < e"
  shows "forest d"
proof -
  have "ancestor_at d (Suc k) e = Some a \<Longrightarrow> a < e" for k e a
  proof (induction k arbitrary: e)
    case 0
    then show ?case using assms by (auto split: option.splits)
  next
    case (Suc k)
    then obtain p where p: "parentElement d e = Some p" "ancestor_at d (Suc k) p = Some a"
      by (cases "parentElement d e") auto
    from Suc.IH [OF p(2)] assms [OF p(1)] show ?case by simp
  qed
  then show ?thesis unfolding forest_def by blast
qed

lemma forest_page_nested: "forest page_nested"
  by (rule forest_by_order) (auto simp: page_nested_def blank_page_def split: if_splits)

lemma nested_walkUp: "walkUp page_nested (Some 3) 0 = Continue"
  by (simp add: walkUp.simps page_nested_def blank_page_def containerSelectors_def
      messageLikeAttributes_def hasAttribute_def)

lemma nested_rt_walkUp: "rt_walkUp page_nested (Some 3) 0 = Continue"
  by (simp add: rt_walkUp.simps page_nested_def blank_page_def rt_containerSelectors_def
      messageCharacteristics_def containerSized_def)

lemma nested_find: "findMessageContainer page_nested (Some 3) = Some 2"
  by (simp add: findMessageContainer_def nested_walkUp parentDiv_def)
     (simp add: page_nested_def blank_page_def)

lemma nested_rt_find: "rt_findMessageContainer page_nested (Some 3) = Some 1"
  by (simp add: rt_findMessageContainer_def nested_rt_walkUp)
     (simp add: rt_fallback.simps messageSized_def page_nested_def blank_page_def)

text \<open>The claim as stated fails on the nested page: after a walk without match the
  reel tracker returns the grandparent, not the parent and not \<open>null\<close>, and
  content-scripts/content.js returns a parent of 10 by 10 pixels.\<close>

theorem findMessageContainer_ancestor_counterexample:
  "rt_walkUp page_nested (Some 3) 0 = Continue
   \<and> parentElement page_nested 3 = Some 2
   \<and> rt_findMessageContainer page_nested (Some 3) = Some 1
   \<and> walkUp page_nested (Some 3) 0 = Continue
   \<and> findMessageContainer page_nested (Some 3) = Some 2
   \<and> rectWidth page_nested 2 = 10 \<and> rectHeight page_nested 2 = 10"
  by (simp add: nested_walkUp nested_rt_walkUp nested_find nested_rt_find)
     (simp add: page_nested_def blank_page_def)

theorem findMessageContainer_ancestor_witness:
  "forest page_nested
   \<and> walkUp page_nested (Some 3) 0 = Continue
   \<and> rt_walkUp page_nested (Some 3) 0 = Continue
   \<and> findMessageContainer page_nested (Some 3) = Some 2
   \<and> ancestor_at page_nested 1 3 = Some 2
   \<and> rt_findMessageContainer page_nested (Some 3) = Some 1
   \<and> ancestor_at page_nested 2 3 = Some 1
   \<and> \<not> strict_descendant page_nested 2 3
   \<and> \<not> strict_descendant page_nested 1 3
   \<and> List.find (messageSized page_nested)
        (takeWhile (\<lambda>y. y \<noteq> body page_nested) (chain page_nested 3 (parentElement page_nested 3)))
      = Some 1"
proof -
  have a: "ancestor_at page_nested 1 3 = Some 2" "ancestor_at page_nested 2 3 = Some 1"
    by (simp_all add: page_nested_def blank_page_def numeral_2_eq_2)
  show ?thesis
    using findMessageContainer_ancestor [of page_nested 3]
          forest_page_nested nested_walkUp nested_rt_walkUp nested_find nested_rt_find a
    by simp
qed

section \<open>Properties of the reel detector\<close>

lemma show_nat_example: "show_nat 1700000012345 = ''1700000012345''"
  by (simp add: show_nat.simps digit_char_def)

text \<open>
  Claim C6, as amended. The function \<open>extractReelId\<close> of the reel tracker returns an
  identifier, never \<open>null\<close>, for every element, every page and every reading of the
  clock: a URL identifier, a generated one, or the one of its \<open>catch\<close> block. The
  method \<open>extractReelId\<close> of \<open>ReelDetector\<close> returns \<open>null\<close> for an element without
  the data attributes, without a URL of its own, without an enclosing reel link and
  without a reel link inside.
\<close>

theorem extractReelId_total:
  "(\<exists>rid. extractReelId clk d (ElementValue x) = Some rid)
   \<and> (getAttribute d x ''data-reel-id'' = None \<and> getAttribute d x ''data-reel'' = None
      \<and> getAttribute d x ''data-id'' = None \<and> href d x = None
      \<and> getAttribute d x ''href'' = None \<and> closest d x ''a[href*=\"/reel/\"]'' = None
      \<and> querySelectorAllIn d x ''a[href*=\"/reel/\"]'' = []
      \<longrightarrow> rd_extractReelId d (Some x) = Inr None)"
proof (intro conjI impI)
  show "\<exists>rid. extractReelId clk d (ElementValue x) = Some rid"
    by (cases "element_reelId clk d x") (simp_all add: extractReelId_def extractReelId_try_def)
next
  assume "getAttribute d x ''data-reel-id'' = None \<and> getAttribute d x ''data-reel'' = None
      \<and> getAttribute d x ''data-id'' = None \<and> href d x = None
      \<and> getAttribute d x ''href'' = None \<and> closest d x ''a[href*=\"/reel/\"]'' = None
      \<and> querySelectorAllIn d x ''a[href*=\"/reel/\"]'' = []"
  then show "rd_extractReelId d (Some x) = Inr None"
    by (simp add: rd_extractReelId_def or_str_def truthy_str_def)
qed

lemma plain_element_no_id: "rd_extractReelId blank_page (Some 1) = Inr None"
  by (simp add: rd_extractReelId_def or_str_def truthy_str_def blank_page_def)

text \<open>The claim as stated fails for \<open>ReelDetector.extractReelId\<close> on a plain
  element: the result is \<open>null\<close>.\<close>

theorem extractReelId_total_counterexample:
  "rd_extractReelId blank_page (Some 1) = Inr None"
  by (rule plain_element_no_id)

lemma plain_element_generated:
  "extractReelId fixed_clock blank_page (ElementValue 1) = Some ''unknown_1700000012345_4fzyo8''"
  by (simp add: extractReelId_def extractReelId_try_def element_reelId_def id_from_href_def
      id_from_src_def self_or_query_def querySelectorIn_def rt_findMessageContainer_def
      or_str_def truthy_str_def blank_page_def fixed_clock_def random6_def show_nat_example)

lemma reel_url_id:
  "extractReelIdFromUrl (Some ''https://www.instagram.com/reel/Cabc123_xy/'') = Some ''Cabc123_xy''"
  by code_simp

lemma link_generated:
  "extractReelId fixed_clock page_reel (ElementValue 5) = Some ''Cabc123_xy''"
  by (simp add: extractReelId_def extractReelId_try_def element_reelId_def id_from_href_def
      or_str_def truthy_str_def page_reel_def blank_page_def reel_url_id)

theorem extractReelId_total_witness:
  "extractReelId fixed_clock blank_page (ElementValue 1) = Some ''unknown_1700000012345_4fzyo8''
   \<and> extractReelId fixed_clock page_reel (ElementValue 5) = Some ''Cabc123_xy''
   \<and> getAttribute blank_page 1 ''data-reel-id'' = None
   \<and> getAttribute blank_page 1 ''data-reel'' = None
   \<and> getAttribute blank_page 1 ''data-id'' = None
   \<and> href blank_page 1 = None
   \<and> getAttribute blank_page 1 ''href'' = None
   \<and> closest blank_page 1 ''a[href*=\"/reel/\"]'' = None
   \<and> querySelectorAllIn blank_page 1 ''a[href*=\"/reel/\"]'' = []
   \<and> rd_extractReelId blank_page (Some 1) = Inr None"
proof -
  have h: "getAttribute blank_page 1 ''data-reel-id'' = None \<and> getAttribute blank_page 1 ''data-reel'' = None
      \<and> getAttribute blank_page 1 ''data-id'' = None \<and> href blank_page 1 = None
      \<and> getAttribute blank_page 1 ''href'' = None \<and> closest blank_page 1 ''a[href*=\"/reel/\"]'' = None
      \<and> querySelectorAllIn blank_page 1 ''a[href*=\"/reel/\"]'' = []"
    by (simp add: blank_page_def)
  show ?thesis
    using extractReelId_total [of fixed_clock blank_page 1] h
          plain_element_generated link_generated
    by simp
qed

text \<open>
  Claim C9. \<open>detectReelsBatch\<close> returns the empty array for an argument that is not
  an array; for an array it returns an array of the same length whose entry at every
  index is the result of \<open>detectReels\<close> on the element at that index. This holds for the
  modelled \<open>detectReels\<close> and for the batch method over any detector that returns.
\<close>

theorem detectReelsBatch_map:
  "detectReelsBatch d NotAnArray = []
   \<and> length (detectReelsBatch d (ArrayValue xs)) = length xs
   \<and> (\<forall>i < length xs. detectReelsBatch d (ArrayValue xs) ! i = detectReels d (xs ! i))
   \<and> detectReelsBatch_with detector NotAnArray = []
   \<and> length (detectReelsBatch_with detector (ArrayValue xs)) = length xs
   \<and> (\<forall>i < length xs. detectReelsBatch_with detector (ArrayValue xs) ! i = detector (xs ! i))"
  by (simp add: detectReelsBatch_def detectReelsBatch_with_def)

lemma first_pattern_reel_url:
  "first_pattern urlPatterns ''https://www.instagram.com/reel/Cabc123_xy/''
     = Some \<lparr>m_start = 12, m_end = 41, m_group = Some (31, 41)\<rparr>"
  by code_simp

lemma first_pattern_plain: "first_pattern urlPatterns ''Watch this'' = None"
  by code_simp

lemma detectReels_link:
  "detectReels page_reel (Some 4) =
     \<lparr>isReel = True, ReelResult.confidence = 0.95, reelId = Some ''Cabc123_xy'',
      detectionMethod = ''url_pattern'',
      reelUrl = Some ''https://www.instagram.com/reel/Cabc123_xy/'',
      messageElement = Some 4, linkElement = Some 5, visualElement = None,
      ReelResult.error = None\<rparr>"
  by (simp add: detectReels_def detectReels_try_def detectByUrlPattern_def
      calculateReelConfidence_def confidenceThreshold_def match1_def substring_def
      or_str_def truthy_str_def page_reel_def blank_page_def first_pattern_reel_url Let_def)

lemma detectReels_null:
  "detectReels page_reel None =
     reel_error (JsError ''TypeError''
                   ''Cannot read properties of null (reading 'querySelectorAll')'') None"
  by (simp add: detectReels_def detectReels_try_def detectByUrlPattern_def)

lemma detectReels_plain:
  "detectReels page_reel (Some 5) = not_reel ''none'' (Some 5)"
  by (simp add: detectReels_def detectReels_try_def detectByUrlPattern_def
      detectByVisualIndicators_def visualSelectors_def not_reel_def
      page_reel_def blank_page_def first_pattern_plain)

theorem detectReelsBatch_map_witness:
  "detectReelsBatch page_reel NotAnArray = []
   \<and> length (detectReelsBatch page_reel (ArrayValue [Some 4, None, Some 5])) = 3
   \<and> detectReelsBatch page_reel (ArrayValue [Some 4, None, Some 5]) ! 0 = detectReels page_reel (Some 4)
   \<and> detectReelsBatch page_reel (ArrayValue [Some 4, None, Some 5]) ! 1 = detectReels page_reel None
   \<and> detectReelsBatch page_reel (ArrayValue [Some 4, None, Some 5]) ! 2 = detectReels page_reel (Some 5)
   \<and> isReel (detectReels page_reel (Some 4))
   \<and> reelId (detectReels page_reel (Some 4)) = Some ''Cabc123_xy''
   \<and> detectionMethod (detectReels page_reel None) = ''error''
   \<and> detectionMethod (detectReels page_reel (Some 5)) = ''none''"
proof -
  have idx: "(0::nat) < length [Some (4::nat), None, Some 5]"
            "(1::nat) < length [Some (4::nat), None, Some 5]"
            "(2::nat) < length [Some (4::nat), None, Some 5]"
    by simp_all
  note m = detectReelsBatch_map
             [where d = page_reel and xs = "[Some 4, None, Some 5]"
                and detector = "detectReels page_reel"]
  have a: "detectReelsBatch page_reel (ArrayValue [Some 4, None, Some 5]) ! 0
             = detectReels page_reel (Some 4)"
    using m idx(1) by (metis nth_Cons_0)
  have b: "detectReelsBatch page_reel (ArrayValue [Some 4, None, Some 5]) ! 1
             = detectReels page_reel None"
    using m idx(2) by (metis One_nat_def nth_Cons_0 nth_Cons_Suc)
  have c: "detectReelsBatch page_reel (ArrayValue [Some 4, None, Some 5]) ! 2
             = detectReels page_reel (Some 5)"
    using m idx(3) by (metis One_nat_def Suc_1 nth_Cons_0 nth_Cons_Suc)
  show ?thesis
    using m a b c
    by (simp add: detectReels_link detectReels_null detectReels_plain reel_error_def not_reel_def)
qed

end
